theory Spec2Isabelle
  imports Main "HOL-Library.Word" "HOL-Library.Multiset" "HOL-Library.List_Lexorder"
    "HOL-Library.Char_ord"
begin

section \<open>tsbs: the data generation driver and the high-CPU query generator\<close>

text \<open>
  The development embeds \<^verbatim>\<open>cmd/tsbs_generate_data/main.go\<close> and
  \<^verbatim>\<open>cmd/bulk_query_gen/timescaledb_devops_high_cpu.go\<close>.

  Go's \<^verbatim>\<open>uint\<close> is taken at its 64-bit width, \<^verbatim>\<open>uint64\<close> and
  \<^verbatim>\<open>int64\<close> are 64-bit words; \<open>+\<close> wraps, and \<open>%\<close> by zero is a run-time panic
  that the model makes an explicit outcome.
\<close>

type_synonym uint = "64 word"
type_synonym uint64 = "64 word"
type_synonym int64 = "64 word"

subsection \<open>Messages\<close>

text \<open>
  A message is a format string with the arguments handed to \<^verbatim>\<open>fmt\<close>, kept
  unrendered: \<^verbatim>\<open>fmt.Errorf(f, a, b)\<close>, \<^verbatim>\<open>fatal(f, a, b)\<close>.
\<close>

datatype fmt_arg =
  ArgUint uint
  | ArgString string
  | ArgStrings "string list"
  | ArgError string

datatype message = Sprintf string "fmt_arg list"

definition errTotalGroupsZero :: string where
  "errTotalGroupsZero = ''incorrect interleaved groups configuration: total groups = 0''"

definition errInvalidGroupsFmt :: string where
  "errInvalidGroupsFmt = ''incorrect interleaved groups configuration: id %d >= total groups %d''"

definition errInvalidFormatFmt :: string where
  "errInvalidFormatFmt = ''invalid format specifier: %v (valid choices: %v)''"

subsection \<open>validateGroups\<close>

definition validateGroups :: "uint \<Rightarrow> uint \<Rightarrow> bool \<times> message option" where
  "validateGroups groupID totalGroups =
     (if totalGroups = 0 then (False, Some (Sprintf errTotalGroupsZero []))
      else if groupID \<ge> totalGroups then
        (False, Some (Sprintf errInvalidGroupsFmt [ArgUint groupID, ArgUint totalGroups]))
      else (True, None))"


subsection \<open>Point\<close>

text \<open>
  Modelled from the spec: the type \<^verbatim>\<open>serialize.Point\<close> is declared in package
  \<^verbatim>\<open>serialize\<close>, which is not among the sources. The spec (section 3) gives it a
  timestamp, a measurement name, an ordered sequence of tag key/value pairs and an
  ordered sequence of field key/value pairs.
\<close>

record Point =
  timestamp :: "int option"
  measurementName :: string
  tag_pairs :: "(string \<times> string) list"
  field_pairs :: "(string \<times> string) list"

text \<open>
  Modelled from the spec: \<^verbatim>\<open>serialize.NewPoint\<close>, absent from the sources, builds
  the empty Point (``a freshly constructed empty buffer'').
\<close>

definition NewPoint :: Point where
  "NewPoint = \<lparr>timestamp = None, measurementName = [], tag_pairs = [], field_pairs = []\<rparr>"

text \<open>
  Modelled from the spec: \<^verbatim>\<open>Point.Reset\<close>, absent from the sources, puts the
  buffer back ``to an empty state before reuse'': every attribute is cleared in place.
\<close>

definition Reset :: "Point \<Rightarrow> Point" where
  "Reset p = p\<lparr>timestamp := None, measurementName := [], tag_pairs := [], field_pairs := []\<rparr>"

subsection \<open>The collaborators of the driver\<close>

text \<open>
  \<^verbatim>\<open>common.Simulator\<close> is an interface; its implementations are outside the
  sources. A simulator is its three methods over a state \<open>'s\<close>: \<^verbatim>\<open>Next\<close>
  mutates the simulator and the Point it is handed, so it returns both with its
  boolean. \<^verbatim>\<open>Fields\<close> returns a Go map, here the list of its entries.
\<close>

record 's Simulator =
  Finished :: "'s \<Rightarrow> bool"
  Next :: "'s \<Rightarrow> Point \<Rightarrow> bool \<times> 's \<times> Point"
  Fields :: "'s \<Rightarrow> (string \<times> string list) list"

text \<open>
  \<^verbatim>\<open>serialize.PointSerializer\<close> is an interface with the one method
  \<^verbatim>\<open>Serialize(p, w) error\<close>: it returns the error (its text), if any, and the sink
  \<open>'w\<close> as the call leaves it.
\<close>

type_synonym 'w PointSerializer = "Point \<Rightarrow> 'w \<Rightarrow> string option \<times> 'w"

subsection \<open>runSimulator\<close>

text \<open>
  How a run ends: the function returns; \<^verbatim>\<open>fatal\<close> (\<^verbatim>\<open>log.Fatalf\<close>) ends the
  process with a message; or the run-time system panics (an integer division by zero, a
  method call on a nil error). Each carries the sink as it stands.
\<close>

datatype 'w outcome =
  Returned 'w
  | Fatal message 'w
  | Panic 'w

text \<open>The variables of the loop: the simulator, the Point buffer, the counter, the sink.\<close>

record ('s, 'w) loop_state =
  sim :: 's
  point :: Point
  currGroup :: uint
  out :: 'w

text \<open>
  One pass through the body of the \<^verbatim>\<open>for\<close> loop (lines 196 to 212): \<open>Inr\<close> is
  the state at the next test of the loop condition, \<open>Inl\<close> ends the run.
\<close>

definition loop_body ::
  "'s Simulator \<Rightarrow> 'w PointSerializer \<Rightarrow> uint \<Rightarrow> uint \<Rightarrow> ('s, 'w) loop_state
   \<Rightarrow> 'w outcome + ('s, 'w) loop_state" where
  "loop_body simulator serializer groupID totalGroups st =
     (case Next simulator (sim st) (point st) of
        (write, sim', point') \<Rightarrow>
          if \<not> write then Inr (st\<lparr>sim := sim', point := Reset point'\<rparr>)
          else
            (case (if currGroup st = groupID then serializer point' (out st)
                   else (None, out st)) of
               (Some err, out') \<Rightarrow> Inl (Fatal (Sprintf ''%v'' [ArgError err]) out')
             | (None, out') \<Rightarrow>
                 if totalGroups = 0 then Inl (Panic out')
                 else Inr \<lparr>sim = sim', point = Reset point',
                           currGroup = (currGroup st + 1) mod totalGroups, out = out'\<rparr>))"

text \<open>
  The loop. A simulator need never report that it has finished, so the loop is a partial
  function: \<open>None\<close> is a run that goes on for ever.
\<close>

partial_function (option) runLoop ::
  "'s Simulator \<Rightarrow> 'w PointSerializer \<Rightarrow> uint \<Rightarrow> uint \<Rightarrow> ('s, 'w) loop_state
   \<Rightarrow> 'w outcome option" where
  "runLoop simulator serializer groupID totalGroups st =
     (if Finished simulator (sim st) then Some (Returned (out st))
      else
        (case loop_body simulator serializer groupID totalGroups st of
           Inl r \<Rightarrow> Some r
         | Inr st' \<Rightarrow> runLoop simulator serializer groupID totalGroups st'))"

definition runSimulator ::
  "'s Simulator \<Rightarrow> 's \<Rightarrow> 'w PointSerializer \<Rightarrow> 'w \<Rightarrow> uint \<Rightarrow> uint \<Rightarrow> 'w outcome option" where
  "runSimulator simulator sim0 serializer out0 groupID totalGroups =
     runLoop simulator serializer groupID totalGroups
       \<lparr>sim = sim0, point = NewPoint, currGroup = 0, out = out0\<rparr>"

text \<open>
  The states in which a run started in \<open>st0\<close> tests the loop condition: the first one,
  and the one each pass of the body leaves.
\<close>

inductive loop_head ::
  "'s Simulator \<Rightarrow> 'w PointSerializer \<Rightarrow> uint \<Rightarrow> uint \<Rightarrow> ('s, 'w) loop_state
   \<Rightarrow> ('s, 'w) loop_state \<Rightarrow> bool"
  for simulator serializer groupID totalGroups st0 where
    loop_head_first: "loop_head simulator serializer groupID totalGroups st0 st0"
  | loop_head_next:
      "loop_head simulator serializer groupID totalGroups st0 st \<Longrightarrow>
       \<not> Finished simulator (sim st) \<Longrightarrow>
       loop_body simulator serializer groupID totalGroups st = Inr st' \<Longrightarrow>
       loop_head simulator serializer groupID totalGroups st0 st'"

subsection \<open>The records of a run, and the ones a group owns\<close>

text \<open>
  The sequence of records a simulator produces when it is driven to its end the way the
  driver drives it: \<^verbatim>\<open>Next\<close> on the reset buffer until \<^verbatim>\<open>Finished\<close>, keeping the
  Point of each call that returned true. \<open>None\<close> when the simulator never finishes.
\<close>

partial_function (option) produced :: "'s Simulator \<Rightarrow> 's \<Rightarrow> Point \<Rightarrow> Point list option" where
  "produced simulator s p =
     (if Finished simulator s then Some []
      else
        (case Next simulator s p of
           (write, s', p') \<Rightarrow>
             if write then
               Option.bind (produced simulator s' (Reset p')) (\<lambda>ps. Some (p' # ps))
             else produced simulator s' (Reset p')))"

text \<open>
  The records of \<open>ps\<close> whose zero-based index \<open>i\<close> has \<open>i mod totalGroups = groupID\<close>, in
  the order of \<open>ps\<close>.
\<close>

definition owned :: "uint \<Rightarrow> uint \<Rightarrow> 'a list \<Rightarrow> 'a list" where
  "owned groupID totalGroups ps =
     map (\<lambda>i. ps ! i)
       (filter (\<lambda>i. i mod unat totalGroups = unat groupID) [0..<length ps])"

text \<open>
  Handing a list of records to the serializer one after the other, up to the first
  failure, which is fatal.
\<close>

fun serializeAll :: "'w PointSerializer \<Rightarrow> 'w \<Rightarrow> Point list \<Rightarrow> 'w outcome" where
  "serializeAll serializer out0 [] = Returned out0"
| "serializeAll serializer out0 (p # ps) =
     (case serializer p out0 of
        (Some err, out') \<Rightarrow> Fatal (Sprintf ''%v'' [ArgError err]) out'
      | (None, out') \<Rightarrow> serializeAll serializer out' ps)"

text \<open>
  The same selection told record by record, with the counter the loop keeps: \<open>c\<close> is
  the number of records produced before the head of the list.
\<close>

fun ownedFrom :: "nat \<Rightarrow> nat \<Rightarrow> nat \<Rightarrow> 'a list \<Rightarrow> 'a list" where
  "ownedFrom c g n [] = []"
| "ownedFrom c g n (p # ps) =
     (if c mod n = g then p # ownedFrom (Suc c) g n ps else ownedFrom (Suc c) g n ps)"

subsection \<open>Test doubles\<close>

text \<open>
  A serializer that keeps the Points it is handed, in order, and never fails; one that
  fails on every call; and a simulator of five ticks that produces no record at tick 1.
\<close>

definition recordingSerializer :: "(Point list) PointSerializer" where
  "recordingSerializer p recs = (None, recs @ [p])"

definition failingSerializer :: "(Point list) PointSerializer" where
  "failingSerializer p recs = (Some ''short write'', recs)"

definition exampleSimulator :: "nat Simulator" where
  "exampleSimulator =
     \<lparr>Finished = (\<lambda>tick. 5 \<le> tick),
      Next = (\<lambda>tick p. (tick \<noteq> 1, Suc tick,
                p\<lparr>timestamp := Some (int tick), measurementName := ''cpu''\<rparr>)),
      Fields = (\<lambda>tick. [(''mem'', [''used'', ''free'']), (''cpu'', [''usage_user''])])\<rparr>"

definition examplePoint :: "nat \<Rightarrow> Point" where
  "examplePoint tick =
     \<lparr>timestamp = Some (int tick), measurementName = ''cpu'', tag_pairs = [], field_pairs = []\<rparr>"

subsection \<open>Options and flags\<close>

text \<open>
  \<^verbatim>\<open>time.Time\<close> is an instant, in nanoseconds since the epoch (so \<^verbatim>\<open>UTC()\<close>
  changes nothing), and \<^verbatim>\<open>time.Duration\<close> a number of nanoseconds.
\<close>

type_synonym Time = int
type_synonym Duration = int

definition formatCassandra :: string where "formatCassandra = ''cassandra''"
definition formatInflux :: string where "formatInflux = ''influx''"
definition formatMongo :: string where "formatMongo = ''mongo''"
definition formatTimescaleDB :: string where "formatTimescaleDB = ''timescaledb''"

definition useCaseCPUOnly :: string where "useCaseCPUOnly = ''cpu-only''"
definition useCaseCPUSingle :: string where "useCaseCPUSingle = ''cpu-single''"
definition useCaseDevops :: string where "useCaseDevops = ''devops''"

definition formatChoices :: "string list" where
  "formatChoices = [formatCassandra, formatInflux, formatMongo, formatTimescaleDB]"

text \<open>The flag values that are parsed again after \<^verbatim>\<open>flag.Parse\<close>.\<close>

record parseableFlagVars =
  timestampStartStr :: string
  timestampEndStr :: string
  pfv_seed :: int64
  pfv_initScaleVar :: uint64

text \<open>The package-level option variables.\<close>

record options =
  format :: string
  useCase :: string
  profileFile :: string
  initScaleVar :: uint64
  scaleVar :: uint64
  seed :: int64
  debug :: int
  timestampStart :: Time
  timestampEnd :: Time
  interleavedGenerationGroupID :: uint
  interleavedGenerationGroups :: uint
  logInterval :: Duration

subsection \<open>Simulator configurations and serializers\<close>

datatype HostConstructor = NewHost | NewHostCPUOnly | NewHostCPUSingle

record SimulatorConfigFields =
  Start :: Time
  End :: Time
  InitHostCount :: uint64
  HostCount :: uint64
  HostConstructor :: HostConstructor

datatype SimulatorConfig =
  DevopsSimulatorConfig SimulatorConfigFields
  | CPUOnlySimulatorConfig SimulatorConfigFields

datatype SerializerKind =
  CassandraSerializer
  | InfluxSerializer
  | MongoSerializer
  | TimescaleDBSerializer

subsection \<open>What a run takes from outside the sources\<close>

text \<open>
  The clock, \<^verbatim>\<open>time.Parse\<close> with the RFC3339 layout (an error text or an instant),
  \<^verbatim>\<open>os.Create\<close> and \<^verbatim>\<open>pprof.WriteHeapProfile\<close> (an error text, if they fail), the
  order in which \<^verbatim>\<open>range\<close> visits the entries of a map in this run, and the
  packages \<^verbatim>\<open>devops\<close>, \<^verbatim>\<open>common\<close> and \<^verbatim>\<open>serialize\<close>:
  \<^item> \<open>ToSimulator\<close> is \<^verbatim>\<open>cfg.ToSimulator(logInterval)\<close> after \<^verbatim>\<open>rand.Seed(seed)\<close>;
    the simulators draw from the seeded generator only (spec, section 3), so the simulator
    built is a function of the seed, the configuration and the interval;
  \<^item> \<open>Serialize\<close> is the method of the four serializers, which are values without
    fields: it returns the error, if any, and the bytes it wrote to the writer;
  \<^item> \<open>MachineTagKeys\<close> is the variable \<^verbatim>\<open>devops.MachineTagKeys\<close>.
\<close>

record 's world =
  timeNowNanosecond :: int64
  timeParseRFC3339 :: "string \<Rightarrow> string + Time"
  osCreate :: "string \<Rightarrow> string option"
  WriteHeapProfile :: "string \<Rightarrow> string option"
  rangeOrder :: "(string \<times> string list) list \<Rightarrow> (string \<times> string list) list"
  ToSimulator :: "int64 \<Rightarrow> SimulatorConfig \<Rightarrow> Duration \<Rightarrow> 's"
  simulatorMethods :: "'s Simulator"
  Serialize :: "SerializerKind \<Rightarrow> Point \<Rightarrow> string option \<times> string"
  MachineTagKeys :: "string list"

text \<open>
  The output sink of \<^verbatim>\<open>main\<close> is the sequence of bytes written to the buffered
  writer \<^verbatim>\<open>out\<close> over standard output. The writer takes every write; on a fatal
  exit its buffer is not flushed, so standard output then holds a prefix of that
  sequence. The interrupt handler that \<^verbatim>\<open>startMemoryProfile\<close> starts runs
  concurrently and is outside the model.
\<close>

definition WriteString :: "string \<Rightarrow> string \<Rightarrow> string" where
  "WriteString out0 s = out0 @ s"

definition serializerTo :: "'s world \<Rightarrow> SerializerKind \<Rightarrow> string PointSerializer" where
  "serializerTo w kind p out0 =
     (case Serialize w kind p of (err, bytes) \<Rightarrow> (err, WriteString out0 bytes))"

subsection \<open>parseTimeFromString, validateFormat, postFlagParse\<close>

definition parseTimeFromString :: "'s world \<Rightarrow> string \<Rightarrow> message + Time" where
  "parseTimeFromString w s =
     (case timeParseRFC3339 w s of
        Inl err \<Rightarrow> Inl (Sprintf ''%v'' [ArgError err])
      | Inr t \<Rightarrow> Inr t)"

fun validateFormat_loop :: "string list \<Rightarrow> string \<Rightarrow> bool" where
  "validateFormat_loop [] fmt = False"
| "validateFormat_loop (s # choices) fmt = (if s = fmt then True else validateFormat_loop choices fmt)"

definition validateFormat :: "string \<Rightarrow> bool" where
  "validateFormat fmt = validateFormat_loop formatChoices fmt"

definition postFlagParse :: "'s world \<Rightarrow> parseableFlagVars \<Rightarrow> options \<Rightarrow> message + options" where
  "postFlagParse w flags opts =
     (let opts1 = opts\<lparr>initScaleVar :=
                    (if pfv_initScaleVar flags = 0 then scaleVar opts else pfv_initScaleVar flags)\<rparr>;
          opts2 = opts1\<lparr>seed :=
                    (if pfv_seed flags = 0 then timeNowNanosecond w else pfv_seed flags)\<rparr>
      in case parseTimeFromString w (timestampStartStr flags) of
           Inl m \<Rightarrow> Inl m
         | Inr t0 \<Rightarrow>
             (case parseTimeFromString w (timestampEndStr flags) of
                Inl m \<Rightarrow> Inl m
              | Inr t1 \<Rightarrow> Inr (opts2\<lparr>timestampStart := t0, timestampEnd := t1\<rparr>)))"

subsection \<open>getConfig and getSerializer\<close>

definition apostrophe :: char where
  "apostrophe = CHR 0x27"

definition newline :: char where
  "newline = CHR 0x0A"

definition getConfig :: "options \<Rightarrow> message + SimulatorConfig" where
  "getConfig opts =
     (if useCase opts = useCaseDevops then
        Inr (DevopsSimulatorConfig
          \<lparr>Start = timestampStart opts, End = timestampEnd opts,
           InitHostCount = initScaleVar opts, HostCount = scaleVar opts,
           HostConstructor = NewHost\<rparr>)
      else if useCase opts = useCaseCPUOnly then
        Inr (CPUOnlySimulatorConfig
          \<lparr>Start = timestampStart opts, End = timestampEnd opts,
           InitHostCount = initScaleVar opts, HostCount = scaleVar opts,
           HostConstructor = NewHostCPUOnly\<rparr>)
      else if useCase opts = useCaseCPUSingle then
        Inr (CPUOnlySimulatorConfig
          \<lparr>Start = timestampStart opts, End = timestampEnd opts,
           InitHostCount = initScaleVar opts, HostCount = scaleVar opts,
           HostConstructor = NewHostCPUSingle\<rparr>)
      else
        Inl (Sprintf (''unknown use case: '' @ [apostrophe] @ ''%s'' @ [apostrophe])
               [ArgString (useCase opts)]))"

text \<open>The loops of the TimescaleDB branch: a comma and a name for each element.\<close>

fun writeNames :: "string \<Rightarrow> string list \<Rightarrow> string" where
  "writeNames out0 [] = out0"
| "writeNames out0 (name # names) = writeNames (WriteString (WriteString out0 '','') name) names"

text \<open>
  \<^verbatim>\<open>fields[measurementName]\<close>: the value of the key, or the nil slice. The entries of
  a Go map have distinct keys.
\<close>

definition lookupFields :: "(string \<times> string list) list \<Rightarrow> string \<Rightarrow> string list" where
  "lookupFields entries measurement =
     (case map_of entries measurement of None \<Rightarrow> [] | Some names \<Rightarrow> names)"

fun writeMeasurements :: "(string \<times> string list) list \<Rightarrow> string \<Rightarrow> string list \<Rightarrow> string" where
  "writeMeasurements entries out0 [] = out0"
| "writeMeasurements entries out0 (name # keys) =
     writeMeasurements entries
       (WriteString (writeNames (WriteString out0 name) (lookupFields entries name)) [newline])
       keys"

fun rangeKeys :: "string list \<Rightarrow> (string \<times> string list) list \<Rightarrow> string list" where
  "rangeKeys keys [] = keys"
| "rangeKeys keys ((k, v) # visited) = rangeKeys (keys @ [k]) visited"

definition getSerializer ::
  "'s world \<Rightarrow> 's \<Rightarrow> string \<Rightarrow> string \<Rightarrow> (message + SerializerKind) \<times> string" where
  "getSerializer w sim0 fmt out0 =
     (if fmt = formatCassandra then (Inr CassandraSerializer, out0)
      else if fmt = formatInflux then (Inr InfluxSerializer, out0)
      else if fmt = formatMongo then (Inr MongoSerializer, out0)
      else if fmt = formatTimescaleDB then
        (let out1 = WriteString out0 ''tags'';
             out2 = writeNames out1 (MachineTagKeys w);
             out3 = WriteString out2 [newline];
             entries = Fields (simulatorMethods w) sim0;
             keys = rangeKeys [] (rangeOrder w entries);
             keys' = sort keys;
             out4 = writeMeasurements entries out3 keys';
             out5 = WriteString out4 [newline]
         in (Inr TimescaleDBSerializer, out5))
      else
        (Inl (Sprintf (''unknown format: '' @ [apostrophe] @ ''%s'' @ [apostrophe]) [ArgString fmt]),
         out0))"

subsection \<open>main\<close>

text \<open>
  \<open>None\<close> is a run that never ends. The deferred calls run when \<^verbatim>\<open>main\<close> returns:
  the flush, then the writing of the heap profile. A fatal exit or a panic runs neither.
\<close>

definition main :: "'s world \<Rightarrow> options \<Rightarrow> string outcome option" where
  "main w opts =
     (case validateGroups (interleavedGenerationGroupID opts) (interleavedGenerationGroups opts) of
        (False, Some m) \<Rightarrow> Some (Fatal m [])
      | (False, None) \<Rightarrow> Some (Panic [])
      | (True, _) \<Rightarrow>
          if \<not> validateFormat (format opts) then
            Some (Fatal (Sprintf ''invalid format specifier: %v (valid choices: %v)''
                    [ArgString (format opts), ArgStrings formatChoices]) [])
          else
            (case (if length (profileFile opts) > 0 then osCreate w (profileFile opts) else None) of
               Some err \<Rightarrow>
                 Some (Fatal (Sprintf ''could not create memory profile: '' [ArgError err]) [])
             | None \<Rightarrow>
                 (let out0 = [] in
                  case getConfig opts of
                    Inl m \<Rightarrow> Some (Fatal m out0)
                  | Inr cfg \<Rightarrow>
                      (let sim0 = ToSimulator w (seed opts) cfg (logInterval opts) in
                       case getSerializer w sim0 (format opts) out0 of
                         (Inl m, out1) \<Rightarrow> Some (Fatal m out1)
                       | (Inr serializer, out1) \<Rightarrow>
                           (case runSimulator (simulatorMethods w) sim0 (serializerTo w serializer)
                                   out1 (interleavedGenerationGroupID opts)
                                   (interleavedGenerationGroups opts) of
                              None \<Rightarrow> None
                            | Some (Returned out2) \<Rightarrow>
                                (case (if length (profileFile opts) > 0
                                       then WriteHeapProfile w (profileFile opts) else None) of
                                   Some err \<Rightarrow>
                                     Some (Fatal (Sprintf ''could not write memory profile: ''
                                             [ArgError err]) out2)
                                 | None \<Rightarrow> Some (Returned out2))
                            | Some res \<Rightarrow> Some res)))))"

text \<open>The process: \<^verbatim>\<open>init\<close> after the flags are parsed, then \<^verbatim>\<open>main\<close>.\<close>

definition program :: "'s world \<Rightarrow> parseableFlagVars \<Rightarrow> options \<Rightarrow> string outcome option" where
  "program w flags opts =
     (case postFlagParse w flags opts of
        Inl m \<Rightarrow> Some (Fatal m [])
      | Inr opts' \<Rightarrow> main w opts')"

text \<open>The exit status of the process.\<close>

fun exitStatus :: "'w outcome \<Rightarrow> nat" where
  "exitStatus (Returned _) = 0"
| "exitStatus (Fatal _ _) = 1"
| "exitStatus (Panic _) = 2"

fun written :: "'w outcome \<Rightarrow> 'w" where
  "written (Returned out0) = out0"
| "written (Fatal _ out0) = out0"
| "written (Panic out0) = out0"


definition exampleWorld :: "nat world" where
  "exampleWorld =
     \<lparr>timeNowNanosecond = 123456789,
      timeParseRFC3339 = (\<lambda>s. if s = ''2016-01-01T00:00:00Z'' then Inr 1451606400000000000
                              else if s = ''2016-01-01T00:01:00Z'' then Inr 1451606460000000000
                              else Inl ''cannot parse''),
      osCreate = (\<lambda>name. None),
      WriteHeapProfile = (\<lambda>name. None),
      rangeOrder = (\<lambda>entries. entries),
      ToSimulator = (\<lambda>seed0 cfg interval. 0),
      simulatorMethods = exampleSimulator,
      Serialize = (\<lambda>kind p. (None, measurementName p @ [newline])),
      MachineTagKeys = [''hostname'', ''region'']\<rparr>"

definition exampleOptions :: options where
  "exampleOptions =
     \<lparr>format = ''timescaledb'', useCase = ''cpu-single'', profileFile = [],
      initScaleVar = 0, scaleVar = 1, seed = 0, debug = 0,
      timestampStart = 0, timestampEnd = 0,
      interleavedGenerationGroupID = 0, interleavedGenerationGroups = 1,
      logInterval = 10000000000\<rparr>"

definition exampleFlags :: parseableFlagVars where
  "exampleFlags =
     \<lparr>timestampStartStr = ''2016-01-01T00:00:00Z'', timestampEndStr = ''2016-01-01T00:01:00Z'',
      pfv_seed = 42, pfv_initScaleVar = 1\<rparr>"


text \<open>
  The preamble of the TimescaleDB format as the spec words it, for the measurement names
  \<open>names\<close>: the header line \<^verbatim>\<open>tags\<close> with the tag keys, one line for each measurement
  with its field names, and an empty line.
\<close>

definition preamble :: "string list \<Rightarrow> (string \<times> string list) list \<Rightarrow> string list \<Rightarrow> string" where
  "preamble tagKeys entries names =
     ''tags'' @ concat (map (\<lambda>key. '','' @ key) tagKeys) @ [newline]
     @ concat (map (\<lambda>m. m @ concat (map (\<lambda>field. '','' @ field) (lookupFields entries m)) @ [newline])
                names)
     @ [newline]"

subsection \<open>The TimescaleDB high-CPU query generator\<close>

text \<open>
  \<^verbatim>\<open>timescaledb_devops_high_cpu.go\<close>. The types \<^verbatim>\<open>TimescaleDBDevops\<close>,
  \<^verbatim>\<open>DatabaseConfig\<close> and \<^verbatim>\<open>Query\<close> and the functions the file calls are declared
  elsewhere in the package; the model takes them as parameters. A Query is an object
  on the heap, known by its address; \<open>'h\<close> is the state those functions work on: the
  Query objects, the pool they are taken from, the random number generator.
  \<^verbatim>\<open>HighCPUForHosts\<close> has a pointer receiver, so it also returns the generator.
\<close>

type_synonym addr = nat
type_synonym go_int = "64 word"

text \<open>
  The dynamic type of a \<^verbatim>\<open>QueryGenerator\<close> interface value, as far as the type
  assertion \<^verbatim>\<open>.(*TimescaleDBDevops)\<close> tells them apart.
\<close>

datatype 'd QueryGenerator =
  TimescaleDBDevopsPtr 'd
  | OtherQueryGenerator

record ('c, 'd, 'h) bulk_query_gen =
  newTimescaleDBDevopsCommon :: "'c \<Rightarrow> Time \<Rightarrow> Time \<Rightarrow> 'd QueryGenerator"
  NewTimescaleDBQuery :: "'h \<Rightarrow> addr \<times> 'h"
  HighCPUForHosts :: "'d \<Rightarrow> addr \<Rightarrow> go_int \<Rightarrow> go_int \<Rightarrow> 'h \<Rightarrow> 'd \<times> 'h"

record 'd TimescaleDBDevopsHighCPU =
  TimescaleDBDevops :: 'd
  hosts :: go_int

text \<open>\<open>None\<close> is the panic of a failed type assertion.\<close>

definition NewTimescaleDBDevopsHighCPU ::
  "('c, 'd, 'h) bulk_query_gen \<Rightarrow> go_int \<Rightarrow> 'c \<Rightarrow> Time \<Rightarrow> Time
   \<Rightarrow> 'd TimescaleDBDevopsHighCPU option" where
  "NewTimescaleDBDevopsHighCPU pkg nhosts dbConfig start end =
     (case newTimescaleDBDevopsCommon pkg dbConfig start end of
        TimescaleDBDevopsPtr underlying \<Rightarrow>
          Some \<lparr>TimescaleDBDevops = underlying, hosts = nhosts\<rparr>
      | OtherQueryGenerator \<Rightarrow> None)"

text \<open>
  \<open>Dispatch\<close> returns the address of the Query, with the generator and the state as the
  call leaves them.
\<close>

definition Dispatch ::
  "('c, 'd, 'h) bulk_query_gen \<Rightarrow> 'd TimescaleDBDevopsHighCPU \<Rightarrow> go_int \<Rightarrow> go_int \<Rightarrow> 'h
   \<Rightarrow> addr \<times> 'd TimescaleDBDevopsHighCPU \<times> 'h" where
  "Dispatch pkg d unused scaleVar0 h =
     (case NewTimescaleDBQuery pkg h of
        (q, h1) \<Rightarrow>
          (case HighCPUForHosts pkg (TimescaleDBDevops d) q scaleVar0 (hosts d) h1 of
             (underlying, h2) \<Rightarrow> (q, d\<lparr>TimescaleDBDevops := underlying\<rparr>, h2)))"

text \<open>
  A package for testing: a pool that hands out the next free address of a heap of
  queries, each a list of words, and a builder that writes the window it is asked for.
\<close>

definition examplePackage :: "(string, string, nat \<times> (addr \<rightharpoonup> go_int list)) bulk_query_gen" where
  "examplePackage =
     \<lparr>newTimescaleDBDevopsCommon = (\<lambda>dbConfig start end. TimescaleDBDevopsPtr dbConfig),
      NewTimescaleDBQuery = (\<lambda>(free, heap). (free, (Suc free, heap(free \<mapsto> [])))),
      HighCPUForHosts = (\<lambda>d q scaleVar0 nhosts (free, heap).
                           (d, (free, heap(q \<mapsto> [scaleVar0, nhosts]))))\<rparr>"


section \<open>Properties\<close>

text \<open>
  C3. \<open>validateGroups groupID totalGroups\<close> returns an error exactly when
  \<open>totalGroups = 0\<close> or \<open>groupID \<ge> totalGroups\<close> (and then its boolean is false); so it
  fails for \<open>groupID = totalGroups\<close> and for \<open>groupID > totalGroups\<close>, and for
  \<open>totalGroups \<ge> 1\<close> it returns true and no error at \<open>groupID = totalGroups - 1\<close>.
\<close>

theorem validateGroups_error_iff:
  "(snd (validateGroups groupID totalGroups) \<noteq> None) = (totalGroups = 0 \<or> groupID \<ge> totalGroups)
   \<and> (fst (validateGroups groupID totalGroups) = (snd (validateGroups groupID totalGroups) = None))
   \<and> (groupID = totalGroups \<longrightarrow> snd (validateGroups groupID totalGroups) \<noteq> None)
   \<and> (groupID > totalGroups \<longrightarrow> snd (validateGroups groupID totalGroups) \<noteq> None)
   \<and> (totalGroups \<ge> 1 \<longrightarrow> validateGroups (totalGroups - 1) totalGroups = (True, None))"
proof -
  have last_ok: "totalGroups - 1 < totalGroups" if "totalGroups \<ge> 1"
  proof -
    from that have "totalGroups \<noteq> 0" by auto
    then have "unat totalGroups \<noteq> 0" by (simp add: unat_eq_0)
    then show ?thesis by (simp add: word_less_nat_alt unat_minus_one \<open>totalGroups \<noteq> 0\<close>)
  qed
  show ?thesis
    using last_ok by (auto simp: validateGroups_def)
qed

theorem validateGroups_error_iff_witness:
  "snd (validateGroups 4 4) \<noteq> None \<and> snd (validateGroups 5 4) \<noteq> None
   \<and> snd (validateGroups 0 0) \<noteq> None \<and> validateGroups 3 4 = (True, None)"
  using validateGroups_error_iff [of 4 4] validateGroups_error_iff [of 5 4]
    validateGroups_error_iff [of 0 0] validateGroups_error_iff [of 3 4]
  by simp

subsection \<open>The round-robin partition\<close>

lemma ownedFrom_eq:
  "ownedFrom c g n ps = map (\<lambda>i. ps ! i) (filter (\<lambda>i. (c + i) mod n = g) [0..<length ps])"
proof (induction ps arbitrary: c)
  case Nil show ?case by simp
next
  case (Cons p ps)
  have "[0..<length (p # ps)] = 0 # map Suc [0..<length ps]"
    by (simp add: upt_conv_Cons map_Suc_upt del: upt_Suc)
  then show ?case using Cons.IH [of "Suc c"]
    by (simp add: filter_map o_def del: upt_Suc)
qed

lemma ownedFrom_mod: "ownedFrom (c mod n) g n ps = ownedFrom c g n ps"
  by (simp add: ownedFrom_eq mod_add_left_eq)

lemma next_counter:
  fixes c n :: uint
  assumes "c < n"
  shows "(c + 1) mod n < n" and "unat ((c + 1) mod n) = Suc (unat c) mod unat n"
proof -
  from assms have n0: "n \<noteq> 0" by auto
  then show "(c + 1) mod n < n" by (simp add: word_mod_less_divisor word_gt_0)
  from assms have "unat c < unat n" by (simp add: word_less_nat_alt)
  moreover have "unat n < 2 ^ 64" using unsigned_less [of n] by simp
  ultimately have "unat c + 1 < 2 ^ 64" by simp
  then have "unat (c + 1) = Suc (unat c)" by (simp add: unat_word_ariths)
  then show "unat ((c + 1) mod n) = Suc (unat c) mod unat n" by (simp add: unat_mod)
qed

lemma runLoop_produced:
  assumes "produced simulator s p = Some ps"
  shows "totalGroups \<noteq> 0 \<Longrightarrow> c < totalGroups \<Longrightarrow>
     runLoop simulator serializer groupID totalGroups \<lparr>sim = s, point = p, currGroup = c, out = out0\<rparr>
     = Some (serializeAll serializer out0 (ownedFrom (unat c) (unat groupID) (unat totalGroups) ps))"
  using assms
proof (induction arbitrary: c out0 rule: produced.raw_induct[rotated 1, consumes 1])
  case (1 produced' simulator s p ps)
  show ?case
  proof (cases "Finished simulator s")
    case True
    with 1 show ?thesis by (simp add: runLoop.simps)
  next
    case False
    obtain w s' p' where nx: "Next simulator s p = (w, s', p')" by (cases "Next simulator s p") 
    show ?thesis
    proof (cases w)
      case False
      with 1(2) nx \<open>\<not> Finished simulator s\<close> have "produced' simulator s' (Reset p') = Some ps" by simp
      from 1(1)[OF this 1(3) 1(4)] show ?thesis
        using nx False \<open>\<not> Finished simulator s\<close> by (subst runLoop.simps) (simp add: loop_body_def)
    next
      case True
      with 1(2) nx \<open>\<not> Finished simulator s\<close> obtain qs where
        qs: "produced' simulator s' (Reset p') = Some qs" and ps: "ps = p' # qs"
        by (auto simp: bind_eq_Some_conv)
      note nc = next_counter[OF 1(4)]
      note om = ownedFrom_mod [of "Suc (unat c)" "unat totalGroups" "unat groupID" qs]
      have g: "(c = groupID) = (unat c mod unat totalGroups = unat groupID)"
        using 1(4) by (auto simp: word_less_nat_alt word_unat_eq_iff)
      show ?thesis
      proof (cases "c = groupID")
        case False
        with g have "unat c mod unat totalGroups \<noteq> unat groupID" by simp
        then show ?thesis
          using 1(1)[OF qs 1(3) nc(1), of out0] nx True False \<open>\<not> Finished simulator s\<close> ps 1(3) nc(2) om
          by (subst runLoop.simps) (simp add: loop_body_def)
      next
        case eq: True
        with g have m: "unat c mod unat totalGroups = unat groupID" by simp
        obtain e out' where se: "serializer p' out0 = (e, out')" by (cases "serializer p' out0")
        show ?thesis
        proof (cases e)
          case None
          then show ?thesis
            using 1(1)[OF qs 1(3) nc(1), of out'] nx True eq \<open>\<not> Finished simulator s\<close> ps 1(3) nc(2) se m om
            by (subst runLoop.simps) (simp add: loop_body_def)
        next
          case (Some err)
          then show ?thesis
            using nx True eq \<open>\<not> Finished simulator s\<close> ps 1(3) se m
            by (subst runLoop.simps) (simp add: loop_body_def)
        qed
      qed
    qed
  qed
qed

lemma owned_ownedFrom: "owned groupID totalGroups ps = ownedFrom 0 (unat groupID) (unat totalGroups) ps"
  by (simp add: owned_def ownedFrom_eq)

lemma runSimulator_owned:
  assumes "totalGroups \<noteq> 0" and "produced simulator s0 NewPoint = Some ps"
  shows "runSimulator simulator s0 serializer out0 groupID totalGroups =
         Some (serializeAll serializer out0 (owned groupID totalGroups ps))"
proof -
  from assms(1) have "0 < totalGroups" by (simp add: word_gt_0)
  from runLoop_produced [OF assms(2) assms(1) this, of serializer groupID out0]
  show ?thesis by (simp add: runSimulator_def owned_ownedFrom)
qed

lemma loop_body_skip:
  "Next simulator (sim st) (point st) = (False, s', p') \<Longrightarrow>
   loop_body simulator serializer groupID totalGroups st =
     Inr \<lparr>sim = s', point = Reset p', currGroup = currGroup st, out = out st\<rparr>"
  by (simp add: loop_body_def)

lemma loop_body_not_owned:
  "Next simulator (sim st) (point st) = (True, s', p') \<Longrightarrow> totalGroups \<noteq> 0 \<Longrightarrow>
   currGroup st \<noteq> groupID \<Longrightarrow>
   loop_body simulator serializer groupID totalGroups st =
     Inr \<lparr>sim = s', point = Reset p', currGroup = (currGroup st + 1) mod totalGroups, out = out st\<rparr>"
  by (simp add: loop_body_def)

lemma loop_body_serialized:
  "Next simulator (sim st) (point st) = (True, s', p') \<Longrightarrow> totalGroups \<noteq> 0 \<Longrightarrow>
   currGroup st = groupID \<Longrightarrow> serializer p' (out st) = (None, out') \<Longrightarrow>
   loop_body simulator serializer groupID totalGroups st =
     Inr \<lparr>sim = s', point = Reset p', currGroup = (currGroup st + 1) mod totalGroups, out = out'\<rparr>"
  by (simp add: loop_body_def)

lemma loop_body_fatal:
  "Next simulator (sim st) (point st) = (True, s', p') \<Longrightarrow>
   currGroup st = groupID \<Longrightarrow> serializer p' (out st) = (Some err, out') \<Longrightarrow>
   loop_body simulator serializer groupID totalGroups st =
     Inl (Fatal (Sprintf ''%v'' [ArgError err]) out')"
  by (simp add: loop_body_def)

lemma loop_body_counter:
  "loop_body simulator serializer groupID totalGroups st = Inr st' \<Longrightarrow>
   currGroup st < totalGroups \<Longrightarrow> currGroup st' < totalGroups"
  by (auto simp: loop_body_def next_counter(1) split: prod.splits if_splits option.splits)

lemma loop_head_counter:
  "loop_head simulator serializer groupID totalGroups st0 st \<Longrightarrow>
   currGroup st0 < totalGroups \<Longrightarrow> currGroup st < totalGroups"
  by (induction rule: loop_head.induct) (auto dest: loop_body_counter)

text \<open>
  C1. With \<open>totalGroups \<ge> 1\<close> and \<open>groupID < totalGroups\<close>: for every simulator run
  that produces the records \<open>ps\<close>, \<open>runSimulator\<close> returns, and what it did to the sink is
  what handing the serializer the records of \<open>ps\<close> at the indices \<open>i\<close> with
  \<open>i mod totalGroups = groupID\<close>, in order, does (up to a first fatal failure). A pass of
  the loop in which \<open>Next\<close> returns false resets the Point and leaves the counter and the
  sink alone; a pass that produced a record resets the Point and moves the counter to
  \<open>(currGroup + 1) mod totalGroups\<close>, whether the record was another group's or was
  serialized; on a counter below \<open>totalGroups\<close> that is one more, modulo \<open>totalGroups\<close>,
  and the counter is below \<open>totalGroups\<close> at every test of the loop condition of a run.
\<close>

theorem runSimulator_round_robin:
  assumes "totalGroups \<ge> 1" and "groupID < totalGroups"
  shows
   "(\<forall>s0 ps out0. produced simulator s0 NewPoint = Some ps \<longrightarrow>
       runSimulator simulator s0 serializer out0 groupID totalGroups =
         Some (serializeAll serializer out0 (owned groupID totalGroups ps)))
    \<and> (\<forall>st s' p'. Next simulator (sim st) (point st) = (False, s', p') \<longrightarrow>
          loop_body simulator serializer groupID totalGroups st =
            Inr \<lparr>sim = s', point = Reset p', currGroup = currGroup st, out = out st\<rparr>)
    \<and> (\<forall>st s' p'. Next simulator (sim st) (point st) = (True, s', p') \<and> currGroup st \<noteq> groupID \<longrightarrow>
          loop_body simulator serializer groupID totalGroups st =
            Inr \<lparr>sim = s', point = Reset p',
                 currGroup = (currGroup st + 1) mod totalGroups, out = out st\<rparr>)
    \<and> (\<forall>st s' p' out'. Next simulator (sim st) (point st) = (True, s', p') \<and> currGroup st = groupID
            \<and> serializer p' (out st) = (None, out') \<longrightarrow>
          loop_body simulator serializer groupID totalGroups st =
            Inr \<lparr>sim = s', point = Reset p',
                 currGroup = (currGroup st + 1) mod totalGroups, out = out'\<rparr>)
    \<and> (\<forall>c. c < totalGroups \<longrightarrow>
          (c + 1) mod totalGroups < totalGroups
          \<and> unat ((c + 1) mod totalGroups) = (unat c + 1) mod unat totalGroups)
    \<and> (\<forall>s0 out0 st.
          loop_head simulator serializer groupID totalGroups
            \<lparr>sim = s0, point = NewPoint, currGroup = 0, out = out0\<rparr> st \<longrightarrow>
          currGroup st < totalGroups)"
proof -
  from assms(1) have n0: "totalGroups \<noteq> 0" by auto
  then have npos: "0 < totalGroups" by (simp add: word_gt_0)
  have heads: "\<forall>s0 out0 st.
          loop_head simulator serializer groupID totalGroups
            \<lparr>sim = s0, point = NewPoint, currGroup = 0, out = out0\<rparr> st \<longrightarrow>
          currGroup st < totalGroups"
  proof (intro allI impI)
    fix s0 out0 st
    assume "loop_head simulator serializer groupID totalGroups
            \<lparr>sim = s0, point = NewPoint, currGroup = 0, out = out0\<rparr> st"
    from loop_head_counter [OF this] npos show "currGroup st < totalGroups" by simp
  qed
  have run: "\<forall>s0 ps out0. produced simulator s0 NewPoint = Some ps \<longrightarrow>
       runSimulator simulator s0 serializer out0 groupID totalGroups =
         Some (serializeAll serializer out0 (owned groupID totalGroups ps))"
    by (intro allI impI) (rule runSimulator_owned [OF n0])
  have skip: "\<forall>st s' p'. Next simulator (sim st) (point st) = (False, s', p') \<longrightarrow>
          loop_body simulator serializer groupID totalGroups st =
            Inr \<lparr>sim = s', point = Reset p', currGroup = currGroup st, out = out st\<rparr>"
    by (simp add: loop_body_skip)
  have other: "\<forall>st s' p'. Next simulator (sim st) (point st) = (True, s', p') \<and> currGroup st \<noteq> groupID \<longrightarrow>
          loop_body simulator serializer groupID totalGroups st =
            Inr \<lparr>sim = s', point = Reset p',
                 currGroup = (currGroup st + 1) mod totalGroups, out = out st\<rparr>"
    using n0 by (simp add: loop_body_not_owned)
  have mine: "\<forall>st s' p' out'. Next simulator (sim st) (point st) = (True, s', p') \<and> currGroup st = groupID
            \<and> serializer p' (out st) = (None, out') \<longrightarrow>
          loop_body simulator serializer groupID totalGroups st =
            Inr \<lparr>sim = s', point = Reset p',
                 currGroup = (currGroup st + 1) mod totalGroups, out = out'\<rparr>"
    using n0 by (simp add: loop_body_serialized)
  have counter: "\<forall>c. c < totalGroups \<longrightarrow>
          (c + 1) mod totalGroups < totalGroups
          \<and> unat ((c + 1) mod totalGroups) = (unat c + 1) mod unat totalGroups"
    by (simp add: next_counter)
  from run skip other mine counter heads show ?thesis by (intro conjI)
qed

theorem runSimulator_round_robin_witness:
  "(1 :: uint) \<le> 2 \<and> (1 :: uint) < 2
   \<and> produced exampleSimulator 0 NewPoint =
       Some [examplePoint 0, examplePoint 2, examplePoint 3, examplePoint 4]
   \<and> runSimulator exampleSimulator 0 recordingSerializer [] 1 2 =
       Some (Returned [examplePoint 2, examplePoint 4])
   \<and> loop_body exampleSimulator recordingSerializer 1 2
         \<lparr>sim = 1, point = NewPoint, currGroup = 1, out = []\<rparr> =
       Inr \<lparr>sim = 2, point = NewPoint, currGroup = 1, out = []\<rparr>
   \<and> loop_body exampleSimulator recordingSerializer 1 2
         \<lparr>sim = 0, point = NewPoint, currGroup = 0, out = []\<rparr> =
       Inr \<lparr>sim = 1, point = NewPoint, currGroup = 1, out = []\<rparr>
   \<and> loop_body exampleSimulator recordingSerializer 1 2
         \<lparr>sim = 2, point = NewPoint, currGroup = 1, out = []\<rparr> =
       Inr \<lparr>sim = 3, point = NewPoint, currGroup = 0, out = [examplePoint 2]\<rparr>
   \<and> loop_head exampleSimulator recordingSerializer 1 2
         \<lparr>sim = 0, point = NewPoint, currGroup = 0, out = []\<rparr>
         \<lparr>sim = 1, point = NewPoint, currGroup = 1, out = []\<rparr>
   \<and> currGroup \<lparr>sim = 1 :: nat, point = NewPoint, currGroup = 1 :: uint,
          out = [] :: Point list\<rparr> < 2"
proof -
  have le: "(1 :: uint) \<le> 2" and lt: "(1 :: uint) < 2" by simp_all
  have pr: "produced exampleSimulator 0 NewPoint =
       Some [examplePoint 0, examplePoint 2, examplePoint 3, examplePoint 4]"
    by (simp add: produced.simps exampleSimulator_def NewPoint_def Reset_def examplePoint_def)
  note rr = runSimulator_round_robin [OF le lt, of exampleSimulator recordingSerializer]
  from rr pr have "runSimulator exampleSimulator 0 recordingSerializer [] 1 2 =
      Some (serializeAll recordingSerializer []
        (owned 1 2 [examplePoint 0, examplePoint 2, examplePoint 3, examplePoint 4]))"
    by blast
  then have run: "runSimulator exampleSimulator 0 recordingSerializer [] 1 2 =
       Some (Returned [examplePoint 2, examplePoint 4])"
    by (simp add: owned_def upt_conv_Cons recordingSerializer_def)
  have n1: "Next exampleSimulator (sim \<lparr>sim = 1, point = NewPoint, currGroup = 1 :: uint, out = [] :: Point list\<rparr>)
      (point \<lparr>sim = 1 :: nat, point = NewPoint, currGroup = 1 :: uint, out = [] :: Point list\<rparr>) = (False, 2, examplePoint 1)"
    by (simp add: exampleSimulator_def examplePoint_def NewPoint_def)
  with rr have skip: "loop_body exampleSimulator recordingSerializer 1 2
         \<lparr>sim = 1, point = NewPoint, currGroup = 1, out = []\<rparr> =
       Inr \<lparr>sim = 2, point = NewPoint, currGroup = 1, out = []\<rparr>"
    by (simp add: Reset_def examplePoint_def NewPoint_def)
  have other: "loop_body exampleSimulator recordingSerializer 1 2
         \<lparr>sim = 0, point = NewPoint, currGroup = 0, out = []\<rparr> =
       Inr \<lparr>sim = 1, point = NewPoint, currGroup = 1, out = []\<rparr>"
    by (simp add: loop_body_def exampleSimulator_def Reset_def NewPoint_def)
  have mine: "loop_body exampleSimulator recordingSerializer 1 2
         \<lparr>sim = 2, point = NewPoint, currGroup = 1, out = []\<rparr> =
       Inr \<lparr>sim = 3, point = NewPoint, currGroup = 0, out = [examplePoint 2]\<rparr>"
    by (simp add: loop_body_def exampleSimulator_def Reset_def NewPoint_def recordingSerializer_def examplePoint_def)
  have nf: "\<not> Finished exampleSimulator
      (sim \<lparr>sim = 0 :: nat, point = NewPoint, currGroup = 0 :: uint, out = [] :: Point list\<rparr>)"
    by (simp add: exampleSimulator_def)
  have head: "loop_head exampleSimulator recordingSerializer 1 2
         \<lparr>sim = 0, point = NewPoint, currGroup = 0, out = []\<rparr>
         \<lparr>sim = 1, point = NewPoint, currGroup = 1, out = []\<rparr>"
    by (rule loop_head_next [OF loop_head_first nf other])
  with rr have bound: "currGroup \<lparr>sim = 1 :: nat, point = NewPoint, currGroup = 1 :: uint,
          out = [] :: Point list\<rparr> < 2"
    by blast
  from le lt pr run skip other mine head bound show ?thesis by (intro conjI)
qed


subsection \<open>The groups together\<close>

lemma mset_concat_upt:
  "mset (concat (map f [0..<n])) = (\<Sum>g = 0..<n. mset (f g))"
  by (induction n) (simp_all add: add.commute)

lemma ownedFrom_groups_mset:
  assumes "0 < n"
  shows "(\<Sum>g = 0..<n. mset (ownedFrom c g n ps)) = mset ps"
proof (induction ps arbitrary: c)
  case Nil
  show ?case by simp
next
  case (Cons p ps)
  have "(\<Sum>g = 0..<n. mset (ownedFrom c g n (p # ps)))
      = (\<Sum>g = 0..<n. (if c mod n = g then {#p#} else {#}) + mset (ownedFrom (Suc c) g n ps))"
    by (rule sum.cong) auto
  also have "\<dots> = (\<Sum>g = 0..<n. (if c mod n = g then {#p#} else {#}))
                 + (\<Sum>g = 0..<n. mset (ownedFrom (Suc c) g n ps))"
    by (simp add: sum.distrib)
  also have "(\<Sum>g = 0..<n. (if c mod n = g then {#p#} else {#})) = {#p#}"
    using assms by (simp add: sum.delta')
  finally show ?case using Cons.IH [of "Suc c"] by simp
qed

lemma serializeAll_recording:
  "serializeAll recordingSerializer recs ps = Returned (recs @ ps)"
  by (induction ps arbitrary: recs) (simp_all add: recordingSerializer_def)

text \<open>
  C2. For a simulator run that produces the records \<open>ps\<close> and \<open>totalGroups > 1\<close>: the run
  of each group \<open>g\<close> in \<open>[0, totalGroups)\<close> hands the serializer the records
  \<open>parts ! g\<close>, the run with one group hands it \<open>whole\<close> (which is \<open>ps\<close>), and the
  concatenation of the parts in group order holds exactly the records of \<open>whole\<close>, each
  occurrence once: the two are equal as multisets.
\<close>

theorem groups_partition_single_run:
  assumes "totalGroups > 1" and "produced simulator s0 NewPoint = Some ps"
  shows "\<exists>whole parts.
           runSimulator simulator s0 recordingSerializer [] 0 1 = Some (Returned whole)
         \<and> length parts = unat totalGroups
         \<and> (\<forall>g < unat totalGroups.
               runSimulator simulator s0 recordingSerializer [] (word_of_nat g) totalGroups =
                 Some (Returned (parts ! g))
               \<and> parts ! g = owned (word_of_nat g) totalGroups ps)
         \<and> whole = ps
         \<and> mset (concat parts) = mset whole"
proof -
  let ?n = "unat totalGroups"
  let ?parts = "map (\<lambda>g. owned (word_of_nat g :: uint) totalGroups ps) [0..<?n]"
  from assms(1) have n0: "totalGroups \<noteq> 0" by auto
  then have npos: "0 < ?n" by (simp add: unat_gt_0)
  have one: "owned (0 :: uint) 1 ps = ps"
    by (simp add: owned_def map_nth)
  have whole: "runSimulator simulator s0 recordingSerializer [] 0 1 = Some (Returned ps)"
    using runSimulator_owned [of 1, OF _ assms(2), of recordingSerializer "[]" 0]
    by (simp add: serializeAll_recording one)
  have part: "runSimulator simulator s0 recordingSerializer [] (word_of_nat g) totalGroups =
                 Some (Returned (?parts ! g)) \<and> ?parts ! g = owned (word_of_nat g) totalGroups ps"
    if "g < ?n" for g
    using runSimulator_owned [OF n0 assms(2), of recordingSerializer "[]" "word_of_nat g"] that
    by (simp add: serializeAll_recording)
  have "mset (concat ?parts) = (\<Sum>g = 0..<?n. mset (owned (word_of_nat g :: uint) totalGroups ps))"
    by (rule mset_concat_upt)
  also have "\<dots> = (\<Sum>g = 0..<?n. mset (ownedFrom 0 g ?n ps))"
  proof (rule sum.cong)
    fix g assume "g \<in> {0..<?n}"
    then have "g < ?n" by simp
    moreover have "?n < 2 ^ 64" using unsigned_less [of totalGroups] by simp
    ultimately have "g < 2 ^ 64" by simp
    then have "unat (word_of_nat g :: uint) = g"
      by (simp add: unat_of_nat)
    then show "mset (owned (word_of_nat g :: uint) totalGroups ps) = mset (ownedFrom 0 g ?n ps)"
      by (simp add: owned_ownedFrom)
  qed simp
  also have "\<dots> = mset ps" by (rule ownedFrom_groups_mset [OF npos])
  finally have ms: "mset (concat ?parts) = mset ps" .
  show ?thesis
    apply (rule exI [of _ ps], rule exI [of _ ?parts])
    using whole part ms by auto
qed

theorem groups_partition_single_run_witness:
  "(1 :: uint) < 2
   \<and> produced exampleSimulator 0 NewPoint =
       Some [examplePoint 0, examplePoint 2, examplePoint 3, examplePoint 4]
   \<and> (\<exists>whole parts.
         runSimulator exampleSimulator 0 recordingSerializer [] 0 1 = Some (Returned whole)
       \<and> runSimulator exampleSimulator 0 recordingSerializer [] 0 2 = Some (Returned (parts ! 0))
       \<and> runSimulator exampleSimulator 0 recordingSerializer [] 1 2 = Some (Returned (parts ! 1))
       \<and> length parts = 2
       \<and> parts ! 0 = [examplePoint 0, examplePoint 3]
       \<and> parts ! 1 = [examplePoint 2, examplePoint 4]
       \<and> whole = [examplePoint 0, examplePoint 2, examplePoint 3, examplePoint 4]
       \<and> mset (concat parts) = mset whole)"
proof -
  have lt: "(1 :: uint) < 2" by simp
  have pr: "produced exampleSimulator 0 NewPoint =
       Some [examplePoint 0, examplePoint 2, examplePoint 3, examplePoint 4]"
    by (simp add: produced.simps exampleSimulator_def NewPoint_def Reset_def examplePoint_def)
  from groups_partition_single_run [OF lt pr] obtain whole parts where
    w: "runSimulator exampleSimulator 0 recordingSerializer [] 0 1 = Some (Returned whole)"
    and len: "length parts = unat (2 :: uint)"
    and each: "\<forall>g < unat (2 :: uint).
               runSimulator exampleSimulator 0 recordingSerializer [] (word_of_nat g) 2 =
                 Some (Returned (parts ! g))
               \<and> parts ! g = owned (word_of_nat g) (2 :: uint)
                    [examplePoint 0, examplePoint 2, examplePoint 3, examplePoint 4]"
    and whole: "whole = [examplePoint 0, examplePoint 2, examplePoint 3, examplePoint 4]"
    and ms: "mset (concat parts) = mset whole"
    by blast
  from each have e0: "runSimulator exampleSimulator 0 recordingSerializer [] 0 2 =
      Some (Returned (parts ! 0))
      \<and> parts ! 0 = owned 0 (2 :: uint)
            [examplePoint 0, examplePoint 2, examplePoint 3, examplePoint 4]"
    by (drule_tac x = 0 in spec) simp
  from each have e1: "runSimulator exampleSimulator 0 recordingSerializer [] 1 2 =
      Some (Returned (parts ! 1))
      \<and> parts ! 1 = owned 1 (2 :: uint)
            [examplePoint 0, examplePoint 2, examplePoint 3, examplePoint 4]"
    by (drule_tac x = 1 in spec) simp
  have o0: "owned 0 (2 :: uint) [examplePoint 0, examplePoint 2, examplePoint 3, examplePoint 4]
      = [examplePoint 0, examplePoint 3]"
    by (simp add: owned_def upt_conv_Cons)
  have o1: "owned 1 (2 :: uint) [examplePoint 0, examplePoint 2, examplePoint 3, examplePoint 4]
      = [examplePoint 2, examplePoint 4]"
    by (simp add: owned_def upt_conv_Cons)
  from len have len2: "length parts = 2" by simp
  from w e0 e1 o0 o1 len2 whole ms have
    "runSimulator exampleSimulator 0 recordingSerializer [] 0 1 = Some (Returned whole)
       \<and> runSimulator exampleSimulator 0 recordingSerializer [] 0 2 = Some (Returned (parts ! 0))
       \<and> runSimulator exampleSimulator 0 recordingSerializer [] 1 2 = Some (Returned (parts ! 1))
       \<and> length parts = 2
       \<and> parts ! 0 = [examplePoint 0, examplePoint 3]
       \<and> parts ! 1 = [examplePoint 2, examplePoint 4]
       \<and> whole = [examplePoint 0, examplePoint 2, examplePoint 3, examplePoint 4]
       \<and> mset (concat parts) = mset whole"
    by simp
  then have "\<exists>whole parts.
         runSimulator exampleSimulator 0 recordingSerializer [] 0 1 = Some (Returned whole)
       \<and> runSimulator exampleSimulator 0 recordingSerializer [] 0 2 = Some (Returned (parts ! 0))
       \<and> runSimulator exampleSimulator 0 recordingSerializer [] 1 2 = Some (Returned (parts ! 1))
       \<and> length parts = 2
       \<and> parts ! 0 = [examplePoint 0, examplePoint 3]
       \<and> parts ! 1 = [examplePoint 2, examplePoint 4]
       \<and> whole = [examplePoint 0, examplePoint 2, examplePoint 3, examplePoint 4]
       \<and> mset (concat parts) = mset whole"
    by (intro exI)
  with lt pr show ?thesis by (intro conjI)
qed

subsection \<open>The Point buffer\<close>

lemma Reset_is_NewPoint: "Reset p = NewPoint"
  by (simp add: Reset_def NewPoint_def)

lemma loop_body_resets:
  "loop_body simulator serializer groupID totalGroups st = Inr st' \<Longrightarrow>
   point st' = Reset (snd (snd (Next simulator (sim st) (point st))))"
  by (auto simp: loop_body_def split: prod.splits if_splits option.splits)

lemma loop_head_point:
  "loop_head simulator serializer groupID totalGroups st0 st \<Longrightarrow>
   point st0 = NewPoint \<Longrightarrow> point st = NewPoint"
  by (induction rule: loop_head.induct) (auto dest: loop_body_resets simp: Reset_is_NewPoint)

text \<open>
  C6. \<open>Reset\<close> leaves the buffer equal to a freshly constructed Point, with no tag and
  no field; every pass of the loop body that leads to another test of the loop condition
  (a skipped iteration, a record of another group, a serialized record) leaves the buffer
  reset; so at every test of the loop condition of a run, hence at every call of
  \<open>Next\<close>, the buffer is the empty Point.
\<close>

theorem point_reset_every_iteration:
  "Reset p = NewPoint \<and> tag_pairs (Reset p) = [] \<and> field_pairs (Reset p) = []
   \<and> (loop_body simulator serializer groupID totalGroups st = Inr st' \<longrightarrow>
        point st' = Reset (snd (snd (Next simulator (sim st) (point st)))) \<and> point st' = NewPoint)
   \<and> (loop_head simulator serializer groupID totalGroups
          \<lparr>sim = s0, point = NewPoint, currGroup = 0, out = out0\<rparr> st1 \<longrightarrow>
        point st1 = NewPoint)"
  using loop_body_resets [of simulator serializer groupID totalGroups st st']
    loop_head_point [of simulator serializer groupID totalGroups
      "\<lparr>sim = s0, point = NewPoint, currGroup = 0, out = out0\<rparr>" st1]
  by (simp add: Reset_is_NewPoint) (simp add: NewPoint_def)

theorem point_reset_every_iteration_witness:
  "loop_body exampleSimulator recordingSerializer 1 2
       \<lparr>sim = 0, point = NewPoint, currGroup = 0, out = []\<rparr> =
     Inr \<lparr>sim = 1, point = NewPoint, currGroup = 1, out = []\<rparr>
   \<and> Next exampleSimulator 0 NewPoint = (True, 1, examplePoint 0)
   \<and> Reset (examplePoint 0) = NewPoint
   \<and> loop_head exampleSimulator recordingSerializer 1 2
         \<lparr>sim = 0, point = NewPoint, currGroup = 0, out = []\<rparr>
         \<lparr>sim = 1, point = NewPoint, currGroup = 1, out = []\<rparr>
   \<and> point \<lparr>sim = 1 :: nat, point = NewPoint, currGroup = 1, out = [] :: Point list\<rparr> = NewPoint"
proof -
  let ?st0 = "\<lparr>sim = 0 :: nat, point = NewPoint, currGroup = 0 :: uint, out = [] :: Point list\<rparr>"
  let ?st1 = "\<lparr>sim = 1 :: nat, point = NewPoint, currGroup = 1 :: uint, out = [] :: Point list\<rparr>"
  have body: "loop_body exampleSimulator recordingSerializer 1 2 ?st0 = Inr ?st1"
    by (simp add: loop_body_def exampleSimulator_def Reset_def NewPoint_def)
  have nx: "Next exampleSimulator 0 NewPoint = (True, 1, examplePoint 0)"
    by (simp add: exampleSimulator_def examplePoint_def NewPoint_def)
  have nf: "\<not> Finished exampleSimulator (sim ?st0)"
    by (simp add: exampleSimulator_def)
  have head: "loop_head exampleSimulator recordingSerializer 1 2 ?st0 ?st1"
    by (rule loop_head_next [OF loop_head_first nf body])
  note pr = point_reset_every_iteration
    [of "examplePoint 0" exampleSimulator recordingSerializer 1 2 ?st0 ?st1 0 "[]" ?st1]
  from pr have r: "Reset (examplePoint 0) = NewPoint" by (rule conjunct1)
  from pr head have p: "point ?st1 = NewPoint" by blast
  from body nx r head p show ?thesis by (intro conjI)
qed

subsection \<open>Division by zero\<close>

lemma runLoop_no_panic:
  assumes "runLoop simulator serializer groupID totalGroups st = Some r"
  shows "totalGroups \<noteq> 0 \<Longrightarrow> r \<noteq> Panic w"
  using assms
proof (induction arbitrary: w rule: runLoop.raw_induct [rotated 1, consumes 1])
  case (1 runLoop' simulator serializer groupID totalGroups st r)
  show ?case
  proof (cases "Finished simulator (sim st)")
    case True
    with 1(2) show ?thesis by auto
  next
    case False
    show ?thesis
    proof (cases "loop_body simulator serializer groupID totalGroups st")
      case (Inl a)
      with 1(2) False have "r = a" by simp
      with Inl 1(3) show ?thesis
        by (auto simp: loop_body_def split: prod.splits if_splits option.splits)
    next
      case (Inr st')
      with 1(2) False have "runLoop' simulator serializer groupID totalGroups st' = Some r" by simp
      from 1(1) [OF this 1(3)] show ?thesis .
    qed
  qed
qed

lemma loop_body_no_panic:
  "totalGroups \<noteq> 0 \<Longrightarrow> loop_body simulator serializer groupID totalGroups st \<noteq> Inl (Panic w)"
  by (auto simp: loop_body_def split: prod.splits if_splits option.splits)

lemma runLoop_zero_groups:
  assumes "produced simulator s p = Some ps"
  shows "ps = r # rs \<Longrightarrow> (c = groupID \<longrightarrow> fst (serializer r out0) = None) \<Longrightarrow>
     runLoop simulator serializer groupID 0 \<lparr>sim = s, point = p, currGroup = c, out = out0\<rparr>
       = Some (Panic (if c = groupID then snd (serializer r out0) else out0))"
  using assms
proof (induction arbitrary: rule: produced.raw_induct [rotated 1, consumes 1])
  case (1 produced' simulator s p ps)
  from 1(2,3) have nf: "\<not> Finished simulator s" by (auto split: if_splits)
  obtain w s' p' where nx: "Next simulator s p = (w, s', p')" by (cases "Next simulator s p")
  show ?case
  proof (cases w)
    case False
    with 1(2) nx nf have "produced' simulator s' (Reset p') = Some ps" by simp
    from 1(1) [OF this 1(3) 1(4)] show ?thesis
      using nx False nf by (subst runLoop.simps) (simp add: loop_body_def)
  next
    case True
    with 1(2) nx nf 1(3) have "p' = r" by (auto simp: bind_eq_Some_conv)
    with nx True nf 1(4) show ?thesis
      by (subst runLoop.simps) (auto simp: loop_body_def split: prod.splits option.splits)
  qed
qed

lemma runSimulator_no_panic:
  assumes "totalGroups \<noteq> 0"
  shows "runSimulator simulator s0 serializer out0 groupID totalGroups \<noteq> Some (Panic x)"
proof
  assume "runSimulator simulator s0 serializer out0 groupID totalGroups = Some (Panic x)"
  then have "runLoop simulator serializer groupID totalGroups
      \<lparr>sim = s0, point = NewPoint, currGroup = 0, out = out0\<rparr> = Some (Panic x)"
    by (simp add: runSimulator_def)
  from runLoop_no_panic [OF this assms, of x] show False by simp
qed

lemma main_no_panic: "main w opts \<noteq> Some (Panic x)"
proof
  assume m: "main w opts = Some (Panic x)"
  let ?g = "interleavedGenerationGroupID opts" and ?n = "interleavedGenerationGroups opts"
  show False
  proof (cases "fst (validateGroups ?g ?n)")
    case False
    then obtain e where "validateGroups ?g ?n = (False, Some e)"
      by (auto simp: validateGroups_def split: if_splits)
    with m show False by (simp add: main_def)
  next
    case True
    then have v: "validateGroups ?g ?n = (True, None)" and n0: "?n \<noteq> 0"
      by (auto simp: validateGroups_def split: if_splits)
    note np = runSimulator_no_panic [OF n0]
    from m v show False
      by (auto simp: main_def Let_def np
          split: if_splits option.splits sum.splits prod.splits outcome.splits)
  qed
qed

lemma runLoop_first_fatal:
  assumes "produced simulator s p = Some ps"
  shows "ps = r # rs \<Longrightarrow> serializer r out0 = (Some err, out') \<Longrightarrow>
     runLoop simulator serializer groupID totalGroups
       \<lparr>sim = s, point = p, currGroup = groupID, out = out0\<rparr>
       = Some (Fatal (Sprintf ''%v'' [ArgError err]) out')"
  using assms
proof (induction arbitrary: rule: produced.raw_induct [rotated 1, consumes 1])
  case (1 produced' simulator s p ps)
  from 1(2,3) have nf: "\<not> Finished simulator s" by (auto split: if_splits)
  obtain w s' p' where nx: "Next simulator s p = (w, s', p')" by (cases "Next simulator s p")
  show ?case
  proof (cases w)
    case False
    with 1(2) nx nf have "produced' simulator s' (Reset p') = Some ps" by simp
    from 1(1) [OF this 1(3) 1(4)] show ?thesis
      using nx False nf by (subst runLoop.simps) (simp add: loop_body_def)
  next
    case True
    with 1(2) nx nf 1(3) have "p' = r" by (auto simp: bind_eq_Some_conv)
    with nx True nf 1(4) show ?thesis
      by (subst runLoop.simps) (simp add: loop_body_def)
  qed
qed

text \<open>
  C9. With \<open>totalGroups \<ge> 1\<close> no pass of the loop body panics and no run ends in a
  panic, and a run over a simulator that finishes returns or is fatal, never panics.
  \<open>validateGroups\<close> accepts only \<open>totalGroups \<ge> 1\<close>, and \<open>main\<close>, which calls
  \<open>runSimulator\<close> after that validation only, never panics. With \<open>totalGroups = 0\<close> the run
  panics on the division at the first record the simulator produces, unless that record
  is the group's own (\<open>groupID = 0\<close>) and its serialization fails: then the run is fatal
  at that record, before the division.
\<close>

theorem modulo_never_divides_by_zero:
  "(totalGroups \<ge> 1 \<longrightarrow>
      loop_body simulator serializer groupID totalGroups st \<noteq> Inl (Panic w)
      \<and> runSimulator simulator s0 serializer out0 groupID totalGroups \<noteq> Some (Panic w)
      \<and> (\<forall>ps. produced simulator s0 NewPoint = Some ps \<longrightarrow>
            (\<exists>res. runSimulator simulator s0 serializer out0 groupID totalGroups = Some res
                  \<and> (\<forall>w'. res \<noteq> Panic w'))))
   \<and> (fst (validateGroups groupID totalGroups) \<longrightarrow> totalGroups \<ge> 1)
   \<and> main world0 opts \<noteq> Some (Panic written0)
   \<and> (produced simulator s0 NewPoint = Some (r # rs)
        \<and> (groupID = 0 \<longrightarrow> fst (serializer r out0) = None) \<longrightarrow>
      runSimulator simulator s0 serializer out0 groupID 0 =
        Some (Panic (if groupID = 0 then snd (serializer r out0) else out0)))
   \<and> (produced simulator s0 NewPoint = Some (r # rs)
        \<and> serializer r out0 = (Some err, out1) \<longrightarrow>
      runSimulator simulator s0 serializer out0 0 0 =
        Some (Fatal (Sprintf ''%v'' [ArgError err]) out1))"
proof -
  have fatal: "runSimulator simulator s0 serializer out0 0 0 =
        Some (Fatal (Sprintf ''%v'' [ArgError err]) out1)"
    if "produced simulator s0 NewPoint = Some (r # rs) \<and> serializer r out0 = (Some err, out1)"
  proof -
    from that have p: "produced simulator s0 NewPoint = Some (r # rs)"
      and s: "serializer r out0 = (Some err, out1)" by auto
    from runLoop_first_fatal [where serializer = serializer and ?out0.0 = out0
        and groupID = 0 and totalGroups = 0 and r = r and rs = rs, OF p refl s]
    show ?thesis by (simp add: runSimulator_def)
  qed
  have safe: "loop_body simulator serializer groupID totalGroups st \<noteq> Inl (Panic w)
      \<and> runSimulator simulator s0 serializer out0 groupID totalGroups \<noteq> Some (Panic w)
      \<and> (\<forall>ps. produced simulator s0 NewPoint = Some ps \<longrightarrow>
            (\<exists>res. runSimulator simulator s0 serializer out0 groupID totalGroups = Some res
                  \<and> (\<forall>w'. res \<noteq> Panic w')))"
    if "totalGroups \<ge> 1"
  proof -
    from that have n0: "totalGroups \<noteq> 0" by auto
    have a: "loop_body simulator serializer groupID totalGroups st \<noteq> Inl (Panic w)"
      by (rule loop_body_no_panic [OF n0])
    have b: "runSimulator simulator s0 serializer out0 groupID totalGroups \<noteq> Some (Panic w')" for w'
    proof
      assume "runSimulator simulator s0 serializer out0 groupID totalGroups = Some (Panic w')"
      then have "runLoop simulator serializer groupID totalGroups
          \<lparr>sim = s0, point = NewPoint, currGroup = 0, out = out0\<rparr> = Some (Panic w')"
        by (simp add: runSimulator_def)
      from runLoop_no_panic [OF this n0, of w'] show False by simp
    qed
    have c: "\<exists>res. runSimulator simulator s0 serializer out0 groupID totalGroups = Some res
                  \<and> (\<forall>w'. res \<noteq> Panic w')"
      if "produced simulator s0 NewPoint = Some ps" for ps
    proof -
      let ?res = "serializeAll serializer out0 (owned groupID totalGroups ps)"
      have run: "runSimulator simulator s0 serializer out0 groupID totalGroups = Some ?res"
        by (rule runSimulator_owned [OF n0 that])
      with b have "\<forall>w'. ?res \<noteq> Panic w'" by simp
      with run show ?thesis by (intro exI conjI)
    qed
    from a b [of w] c show ?thesis by (intro conjI allI impI)
  qed
  have valid: "totalGroups \<ge> 1" if "fst (validateGroups groupID totalGroups)"
  proof -
    from that have "totalGroups \<noteq> 0" by (auto simp: validateGroups_def split: if_splits)
    then have "unat totalGroups \<noteq> 0" by (simp add: unat_eq_0)
    then show ?thesis by (simp add: word_le_nat_alt)
  qed
  have zero: "runSimulator simulator s0 serializer out0 groupID 0 =
        Some (Panic (if groupID = 0 then snd (serializer r out0) else out0))"
    if "produced simulator s0 NewPoint = Some (r # rs)
        \<and> (groupID = 0 \<longrightarrow> fst (serializer r out0) = None)"
  proof -
    from that have p: "produced simulator s0 NewPoint = Some (r # rs)"
      and s: "0 = groupID \<longrightarrow> fst (serializer r out0) = None" by auto
    have e: "(0 = groupID) = (groupID = 0)" by auto
    from runLoop_zero_groups [where serializer = serializer and ?out0.0 = out0 and c = 0
        and groupID = groupID and r = r and rs = rs, OF p refl s] show ?thesis
      by (simp add: runSimulator_def e)
  qed
  show ?thesis
  proof (intro conjI impI)
    assume "1 \<le> totalGroups"
    from safe [OF this]
    show "loop_body simulator serializer groupID totalGroups st \<noteq> Inl (Panic w)"
      and "runSimulator simulator s0 serializer out0 groupID totalGroups \<noteq> Some (Panic w)"
      and "\<forall>ps. produced simulator s0 NewPoint = Some ps \<longrightarrow>
            (\<exists>res. runSimulator simulator s0 serializer out0 groupID totalGroups = Some res
                  \<and> (\<forall>w'. res \<noteq> Panic w'))"
      by simp_all
  next
    assume "fst (validateGroups groupID totalGroups)"
    then show "1 \<le> totalGroups" by (rule valid)
  next
    show "main world0 opts \<noteq> Some (Panic written0)" by (rule main_no_panic)
  next
    assume "produced simulator s0 NewPoint = Some (r # rs)
        \<and> (groupID = 0 \<longrightarrow> fst (serializer r out0) = None)"
    then show "runSimulator simulator s0 serializer out0 groupID 0 =
        Some (Panic (if groupID = 0 then snd (serializer r out0) else out0))"
      by (rule zero)
  next
    assume "produced simulator s0 NewPoint = Some (r # rs)
        \<and> serializer r out0 = (Some err, out1)"
    then show "runSimulator simulator s0 serializer out0 0 0 =
        Some (Fatal (Sprintf ''%v'' [ArgError err]) out1)"
      by (rule fatal)
  qed
qed

theorem modulo_never_divides_by_zero_witness:
  "(1 :: uint) \<le> 2
   \<and> runSimulator exampleSimulator 0 recordingSerializer [] 1 2 =
       Some (Returned [examplePoint 2, examplePoint 4])
   \<and> fst (validateGroups 1 2)
   \<and> \<not> fst (validateGroups 1 0)
   \<and> produced exampleSimulator 0 NewPoint =
       Some [examplePoint 0, examplePoint 2, examplePoint 3, examplePoint 4]
   \<and> runSimulator exampleSimulator 0 recordingSerializer [] 1 0 = Some (Panic [])
   \<and> runSimulator exampleSimulator 0 recordingSerializer [] 0 0 = Some (Panic [examplePoint 0])
   \<and> runSimulator exampleSimulator 0 failingSerializer [] 0 0 =
       Some (Fatal (Sprintf ''%v'' [ArgError ''short write'']) [])"
proof -
  have le: "(1 :: uint) \<le> 2" by simp
  have pr: "produced exampleSimulator 0 NewPoint =
       Some [examplePoint 0, examplePoint 2, examplePoint 3, examplePoint 4]"
    by (simp add: produced.simps exampleSimulator_def NewPoint_def Reset_def examplePoint_def)
  have run: "runSimulator exampleSimulator 0 recordingSerializer [] 1 2 =
       Some (Returned [examplePoint 2, examplePoint 4])"
    by (simp add: runSimulator_def runLoop.simps loop_body_def exampleSimulator_def NewPoint_def
        Reset_def examplePoint_def recordingSerializer_def)
  have v: "fst (validateGroups 1 2)" "\<not> fst (validateGroups 1 0)"
    by (simp_all add: validateGroups_def word_le_nat_alt)
  have z1: "runSimulator exampleSimulator 0 recordingSerializer [] 1 0 = Some (Panic [])"
    using modulo_never_divides_by_zero [THEN conjunct2, THEN conjunct2, THEN conjunct2,
        THEN conjunct1, rule_format,
        of exampleSimulator 0 "examplePoint 0" "[examplePoint 2, examplePoint 3, examplePoint 4]"
        1 recordingSerializer "[]"] pr
    by simp
  have z0: "runSimulator exampleSimulator 0 recordingSerializer [] 0 0 = Some (Panic [examplePoint 0])"
    using modulo_never_divides_by_zero [THEN conjunct2, THEN conjunct2, THEN conjunct2,
        THEN conjunct1, rule_format,
        of exampleSimulator 0 "examplePoint 0" "[examplePoint 2, examplePoint 3, examplePoint 4]"
        0 recordingSerializer "[]"] pr
    by (simp add: recordingSerializer_def)
  have fs: "failingSerializer (examplePoint 0) [] = (Some ''short write'', [])"
    by (simp add: failingSerializer_def)
  have f: "runSimulator exampleSimulator 0 failingSerializer [] 0 0 =
       Some (Fatal (Sprintf ''%v'' [ArgError ''short write'']) [])"
    using modulo_never_divides_by_zero [THEN conjunct2, THEN conjunct2, THEN conjunct2,
        THEN conjunct2, rule_format,
        of exampleSimulator 0 "examplePoint 0" "[examplePoint 2, examplePoint 3, examplePoint 4]"
        failingSerializer "[]" "''short write''" "[]"] pr fs
    by simp
  from le run v pr z1 z0 f show ?thesis by (intro conjI)
qed

text \<open>
  With \<open>totalGroups = 0\<close> and \<open>groupID = 0\<close>, a run whose serializer fails on the first
  record produced is fatal there and does not reach the division.
\<close>

theorem zero_groups_fatal_before_division:
  "produced exampleSimulator 0 NewPoint =
     Some [examplePoint 0, examplePoint 2, examplePoint 3, examplePoint 4]
   \<and> runSimulator exampleSimulator 0 failingSerializer [] 0 0 =
       Some (Fatal (Sprintf ''%v'' [ArgError ''short write'']) [])
   \<and> runSimulator exampleSimulator 0 failingSerializer [] 0 0 \<noteq> Some (Panic [])"
proof -
  have pr: "produced exampleSimulator 0 NewPoint =
       Some [examplePoint 0, examplePoint 2, examplePoint 3, examplePoint 4]"
    by (simp add: produced.simps exampleSimulator_def NewPoint_def Reset_def examplePoint_def)
  have body: "loop_body exampleSimulator failingSerializer 0 0
      \<lparr>sim = 0, point = NewPoint, currGroup = 0, out = []\<rparr> =
      Inl (Fatal (Sprintf ''%v'' [ArgError ''short write'']) [])"
    by (simp add: loop_body_def exampleSimulator_def NewPoint_def failingSerializer_def)
  have nf: "\<not> Finished exampleSimulator 0" by (simp add: exampleSimulator_def)
  from body nf have f: "runSimulator exampleSimulator 0 failingSerializer [] 0 0 =
       Some (Fatal (Sprintf ''%v'' [ArgError ''short write'']) [])"
    unfolding runSimulator_def by (subst runLoop.simps) simp
  then have "runSimulator exampleSimulator 0 failingSerializer [] 0 0 \<noteq> Some (Panic [])"
    by simp
  with pr f show ?thesis by (intro conjI)
qed

subsection \<open>The preamble of the TimescaleDB format\<close>

lemma comma_append: "((@) '','') = ((#) CHR '','')"
  by (rule ext) simp

lemma writeNames_eq: "writeNames out0 names = out0 @ concat (map (\<lambda>name. '','' @ name) names)"
  by (induction names arbitrary: out0) (simp_all add: WriteString_def)

lemma writeMeasurements_eq:
  "writeMeasurements entries out0 keys =
   out0 @ concat (map (\<lambda>m. m @ concat (map (\<lambda>name. '','' @ name) (lookupFields entries m)) @ [newline]) keys)"
  by (induction keys arbitrary: out0) (simp_all add: WriteString_def writeNames_eq comma_append)

lemma rangeKeys_eq: "rangeKeys keys visited = keys @ map fst visited"
  by (induction visited arbitrary: keys) auto

lemma sorted_keys:
  assumes "mset visited = mset entries" and "distinct (map fst entries)"
  shows "sorted_wrt (<) (sort (map fst visited))"
    and "set (sort (map fst visited)) = fst ` set entries"
    and "sort (map fst visited) = sort (map fst entries)"
proof -
  from assms(1) have m: "mset (map fst visited) = mset (map fst entries)"
    by (metis mset_map)
  with assms(2) have "distinct (map fst visited)"
    by (metis mset_eq_imp_distinct_iff)
  then show "sorted_wrt (<) (sort (map fst visited))"
    by (simp add: strict_sorted_iff)
  from m have "set (map fst visited) = set (map fst entries)" by (rule mset_eq_setD)
  then show "set (sort (map fst visited)) = fst ` set entries" by simp
  from m show "sort (map fst visited) = sort (map fst entries)"
    by (metis sorted_list_of_multiset_mset)
qed

lemma lookupFields_entry:
  "distinct (map fst entries) \<Longrightarrow> (m, names) \<in> set entries \<Longrightarrow> lookupFields entries m = names"
  by (simp add: lookupFields_def)

lemma getSerializer_timescaledb:
  "getSerializer w sim0 formatTimescaleDB out0 =
     (Inr TimescaleDBSerializer,
      out0 @ ''tags'' @ concat (map (\<lambda>k. '','' @ k) (MachineTagKeys w)) @ [newline]
        @ concat (map (\<lambda>m. m @ concat (map (\<lambda>name. '','' @ name)
                                  (lookupFields (Fields (simulatorMethods w) sim0) m)) @ [newline])
                   (sort (map fst (rangeOrder w (Fields (simulatorMethods w) sim0)))))
        @ [newline])"
  by (simp add: getSerializer_def formatCassandra_def formatInflux_def formatMongo_def
      formatTimescaleDB_def WriteString_def writeNames_eq writeMeasurements_eq rangeKeys_eq
      comma_append Let_def)

lemma getSerializer_preamble:
  "getSerializer w sim0 formatTimescaleDB out0 =
     (Inr TimescaleDBSerializer,
      out0 @ preamble (MachineTagKeys w) (Fields (simulatorMethods w) sim0)
               (sort (map fst (rangeOrder w (Fields (simulatorMethods w) sim0)))))"
  by (simp add: getSerializer_timescaledb preamble_def comma_append)

lemma runLoop_prefix:
  assumes "runLoop simulator serializer groupID totalGroups st = Some res"
  shows "serializer = serializerTo w kind \<Longrightarrow> \<exists>rest. written res = out st @ rest"
  using assms
proof (induction rule: runLoop.raw_induct [rotated 1, consumes 1])
  case (1 runLoop' simulator serializer groupID totalGroups st res)
  show ?case
  proof (cases "Finished simulator (sim st)")
    case True
    with 1(2) show ?thesis by auto
  next
    case False
    show ?thesis
    proof (cases "loop_body simulator serializer groupID totalGroups st")
      case (Inl a)
      with 1(2) False have "res = a" by simp
      with Inl 1(3) show ?thesis
        by (auto simp: loop_body_def serializerTo_def WriteString_def
            split: prod.splits if_splits option.splits)
    next
      case (Inr st')
      with 1(2) False have "runLoop' simulator serializer groupID totalGroups st' = Some res"
        by simp
      from 1(1) [OF this 1(3)] obtain rest where r: "written res = out st' @ rest" by blast
      from Inr 1(3) obtain more where "out st' = out st @ more"
        by (auto simp: loop_body_def serializerTo_def WriteString_def
            split: prod.splits if_splits option.splits)
      with r show ?thesis by simp
    qed
  qed
qed

lemma runSimulator_prefix:
  "runSimulator simulator s0 (serializerTo w kind) out0 groupID totalGroups = Some res \<Longrightarrow>
   \<exists>rest. written res = out0 @ rest"
  unfolding runSimulator_def by (drule runLoop_prefix [OF _ refl]) simp

lemma main_timescaledb_prefix:
  assumes "format opts = formatTimescaleDB" and "getConfig opts = Inr cfg"
    and "main w opts = Some res" and "written res \<noteq> []"
  shows "\<exists>rest. written res =
           preamble (MachineTagKeys w)
             (Fields (simulatorMethods w) (ToSimulator w (seed opts) cfg (logInterval opts)))
             (sort (map fst (rangeOrder w
                (Fields (simulatorMethods w) (ToSimulator w (seed opts) cfg (logInterval opts))))))
           @ rest"
proof -
  let ?sim0 = "ToSimulator w (seed opts) cfg (logInterval opts)"
  let ?pre = "preamble (MachineTagKeys w) (Fields (simulatorMethods w) ?sim0)
             (sort (map fst (rangeOrder w (Fields (simulatorMethods w) ?sim0))))"
  let ?run = "runSimulator (simulatorMethods w) ?sim0 (serializerTo w TimescaleDBSerializer)
      ?pre (interleavedGenerationGroupID opts) (interleavedGenerationGroups opts)"
  have gs: "getSerializer w ?sim0 (format opts) [] = (Inr TimescaleDBSerializer, ?pre)"
    using getSerializer_preamble [of w ?sim0 "[]"] assms(1) by simp
  from assms(2,3,4) gs obtain r where run: "?run = Some r" and w: "written res = written r"
    by (auto simp: main_def Let_def split: prod.splits bool.splits option.splits if_splits
        outcome.splits)
  from runSimulator_prefix [OF run] w show ?thesis by simp
qed

lemma example_run:
  "runSimulator exampleSimulator 0 (serializerTo exampleWorld kind) out0 0 1 =
     Some (Returned (out0 @ ''cpu'' @ [newline] @ ''cpu'' @ [newline] @ ''cpu'' @ [newline]
       @ ''cpu'' @ [newline]))"
  by (simp add: runSimulator_def runLoop.simps loop_body_def exampleSimulator_def NewPoint_def
      Reset_def serializerTo_def exampleWorld_def WriteString_def)

lemma example_getSerializer:
  "getSerializer exampleWorld 0 formatTimescaleDB [] =
     (Inr TimescaleDBSerializer,
      ''tags,hostname,region'' @ [newline] @ ''cpu,usage_user'' @ [newline]
        @ ''mem,used,free'' @ [newline] @ [newline])"
  by (simp add: getSerializer_preamble preamble_def exampleWorld_def exampleSimulator_def
      lookupFields_def)

lemma example_main:
  assumes "format opts = formatTimescaleDB" and "useCase opts = useCaseCPUSingle"
    and "profileFile opts = []" and "interleavedGenerationGroupID opts = 0"
    and "interleavedGenerationGroups opts = 1"
  shows "main exampleWorld opts =
       Some (Returned (''tags,hostname,region'' @ [newline] @ ''cpu,usage_user'' @ [newline]
              @ ''mem,used,free'' @ [newline] @ [newline]
              @ ''cpu'' @ [newline] @ ''cpu'' @ [newline] @ ''cpu'' @ [newline] @ ''cpu'' @ [newline]))"
proof -
  have c: "getConfig opts = Inr (CPUOnlySimulatorConfig
          \<lparr>Start = timestampStart opts, End = timestampEnd opts,
           InitHostCount = initScaleVar opts, HostCount = scaleVar opts,
           HostConstructor = NewHostCPUSingle\<rparr>)"
    using assms(2)
    by (simp add: getConfig_def useCaseDevops_def useCaseCPUOnly_def useCaseCPUSingle_def)
  have t: "ToSimulator exampleWorld x y z = 0" for x y z by (simp add: exampleWorld_def)
  have sm: "simulatorMethods exampleWorld = exampleSimulator" by (simp add: exampleWorld_def)
  have vg: "validateGroups 0 1 = (True, None)" by (simp add: validateGroups_def)
  have vf: "validateFormat formatTimescaleDB"
    by (simp add: validateFormat_def formatChoices_def formatTimescaleDB_def)
  show ?thesis
    unfolding main_def assms c by (simp add: vg vf t example_getSerializer sm example_run)
qed


text \<open>
  C5. For the TimescaleDB format, when \<^verbatim>\<open>range\<close> visits each entry of the map
  \<open>Fields\<close> returns once: \<open>getSerializer\<close> appends to the sink the preamble for a list of
  measurement names that is strictly ascending and holds exactly the keys of the map,
  each line listing the field names the map gives for its measurement: the line
  \<^verbatim>\<open>tags\<close> with the machine tag keys in their order, a line for each measurement, an
  empty line. Whatever \<open>main\<close> has written, if anything, begins with that preamble, so
  the preamble precedes every record.
\<close>

theorem timescaledb_preamble:
  assumes "entries = Fields (simulatorMethods w) sim0"
    and "mset (rangeOrder w entries) = mset entries"
    and "distinct (map fst entries)"
  shows "\<exists>names.
           sorted_wrt (<) names
         \<and> set names = fst ` set entries
         \<and> (\<forall>m \<in> set names. (m, lookupFields entries m) \<in> set entries)
         \<and> getSerializer w sim0 formatTimescaleDB out0 =
             (Inr TimescaleDBSerializer, out0 @ preamble (MachineTagKeys w) entries names)
         \<and> (\<forall>opts cfg res.
               format opts = formatTimescaleDB \<and> getConfig opts = Inr cfg
               \<and> ToSimulator w (seed opts) cfg (logInterval opts) = sim0
               \<and> main w opts = Some res \<and> written res \<noteq> [] \<longrightarrow>
               (\<exists>rest. written res = preamble (MachineTagKeys w) entries names @ rest))"
proof -
  let ?names = "sort (map fst (rangeOrder w entries))"
  note sk = sorted_keys [OF assms(2) assms(3)]
  have look: "\<forall>m \<in> set ?names. (m, lookupFields entries m) \<in> set entries"
  proof
    fix m assume "m \<in> set ?names"
    with sk(2) obtain names where "(m, names) \<in> set entries" by auto
    with lookupFields_entry [OF assms(3) this] show "(m, lookupFields entries m) \<in> set entries"
      by simp
  qed
  have gs: "getSerializer w sim0 formatTimescaleDB out0 =
             (Inr TimescaleDBSerializer, out0 @ preamble (MachineTagKeys w) entries ?names)"
    unfolding assms(1) by (rule getSerializer_preamble)
  have mn: "\<forall>opts cfg res.
               format opts = formatTimescaleDB \<and> getConfig opts = Inr cfg
               \<and> ToSimulator w (seed opts) cfg (logInterval opts) = sim0
               \<and> main w opts = Some res \<and> written res \<noteq> [] \<longrightarrow>
               (\<exists>rest. written res = preamble (MachineTagKeys w) entries ?names @ rest)"
  proof (intro allI impI, elim conjE)
    fix opts cfg res
    assume a: "format opts = formatTimescaleDB" "getConfig opts = Inr cfg"
      "ToSimulator w (seed opts) cfg (logInterval opts) = sim0"
      "main w opts = Some res" "written res \<noteq> []"
    from main_timescaledb_prefix [OF a(1,2,4,5)] a(3) assms(1)
    show "\<exists>rest. written res = preamble (MachineTagKeys w) entries ?names @ rest"
      by simp
  qed
  from sk(1,2) look gs mn show ?thesis by (intro exI [of _ ?names] conjI)
qed

theorem timescaledb_preamble_witness:
  "Fields (simulatorMethods exampleWorld) 0 =
     [(''mem'', [''used'', ''free'']), (''cpu'', [''usage_user''])]
   \<and> (\<exists>names. sorted_wrt (<) names \<and> set names = {''cpu'', ''mem''}
        \<and> getSerializer exampleWorld 0 formatTimescaleDB [] =
           (Inr TimescaleDBSerializer,
            ''tags,hostname,region'' @ [newline] @ ''cpu,usage_user'' @ [newline]
              @ ''mem,used,free'' @ [newline] @ [newline])
        \<and> (\<exists>rest. ''tags,hostname,region'' @ [newline] @ ''cpu,usage_user'' @ [newline]
              @ ''mem,used,free'' @ [newline] @ [newline]
              @ ''cpu'' @ [newline] @ ''cpu'' @ [newline] @ ''cpu'' @ [newline] @ ''cpu'' @ [newline]
             = preamble (MachineTagKeys exampleWorld)
                 [(''mem'', [''used'', ''free'']), (''cpu'', [''usage_user''])] names @ rest))
   \<and> main exampleWorld exampleOptions =
       Some (Returned (''tags,hostname,region'' @ [newline] @ ''cpu,usage_user'' @ [newline]
              @ ''mem,used,free'' @ [newline] @ [newline]
              @ ''cpu'' @ [newline] @ ''cpu'' @ [newline] @ ''cpu'' @ [newline] @ ''cpu'' @ [newline]))"
proof -
  let ?entries = "[(''mem'', [''used'', ''free'']), (''cpu'', [''usage_user''])]"
  let ?out = "''tags,hostname,region'' @ [newline] @ ''cpu,usage_user'' @ [newline]
              @ ''mem,used,free'' @ [newline] @ [newline]
              @ ''cpu'' @ [newline] @ ''cpu'' @ [newline] @ ''cpu'' @ [newline] @ ''cpu'' @ [newline]"
  have f: "Fields (simulatorMethods exampleWorld) 0 = ?entries"
    by (simp add: exampleWorld_def exampleSimulator_def)
  have r: "mset (rangeOrder exampleWorld ?entries) = mset ?entries"
    by (simp add: exampleWorld_def)
  have d: "distinct (map fst ?entries)" by simp
  from timescaledb_preamble [OF f [symmetric] r d, of "[]"] obtain names where
    s: "sorted_wrt (<) names" and k: "set names = fst ` set ?entries"
    and g: "getSerializer exampleWorld 0 formatTimescaleDB [] =
             (Inr TimescaleDBSerializer, [] @ preamble (MachineTagKeys exampleWorld) ?entries names)"
    and mn: "\<forall>opts cfg res.
               format opts = formatTimescaleDB \<and> getConfig opts = Inr cfg
               \<and> ToSimulator exampleWorld (seed opts) cfg (logInterval opts) = 0
               \<and> main exampleWorld opts = Some res \<and> written res \<noteq> [] \<longrightarrow>
               (\<exists>rest. written res = preamble (MachineTagKeys exampleWorld) ?entries names @ rest)"
    by blast
  from k have k': "set names = {''cpu'', ''mem''}" by auto
  from s have "distinct names" by (simp add: strict_sorted_iff)
  with s k' have "names = [''cpu'', ''mem'']"
    by (intro sorted_distinct_set_unique) (auto simp: strict_sorted_iff)
  with g have g': "getSerializer exampleWorld 0 formatTimescaleDB [] =
           (Inr TimescaleDBSerializer,
            ''tags,hostname,region'' @ [newline] @ ''cpu,usage_user'' @ [newline]
              @ ''mem,used,free'' @ [newline] @ [newline])"
    by (simp add: preamble_def exampleWorld_def lookupFields_def)
  have fm: "format exampleOptions = formatTimescaleDB"
    by (simp add: exampleOptions_def formatTimescaleDB_def)
  have m: "main exampleWorld exampleOptions = Some (Returned ?out)"
    by (rule example_main)
      (simp_all add: exampleOptions_def formatTimescaleDB_def useCaseCPUSingle_def)
  have c: "getConfig exampleOptions = Inr (CPUOnlySimulatorConfig
          \<lparr>Start = 0, End = 0, InitHostCount = 0, HostCount = 1,
           HostConstructor = NewHostCPUSingle\<rparr>)"
    by (simp add: getConfig_def exampleOptions_def useCaseDevops_def useCaseCPUOnly_def
        useCaseCPUSingle_def)
  have t: "ToSimulator exampleWorld (seed exampleOptions)
      (CPUOnlySimulatorConfig
          \<lparr>Start = 0, End = 0, InitHostCount = 0, HostCount = 1,
           HostConstructor = NewHostCPUSingle\<rparr>) (logInterval exampleOptions) = 0"
    by (simp add: exampleWorld_def)
  have ne: "written (Returned ?out) \<noteq> []" by simp
  from mn fm c t m ne have
    "\<exists>rest. written (Returned ?out) = preamble (MachineTagKeys exampleWorld) ?entries names @ rest"
    by blast
  then have pre: "\<exists>rest. ?out = preamble (MachineTagKeys exampleWorld) ?entries names @ rest"
    by simp
  from s k' g' pre have "\<exists>names. sorted_wrt (<) names \<and> set names = {''cpu'', ''mem''}
        \<and> getSerializer exampleWorld 0 formatTimescaleDB [] =
           (Inr TimescaleDBSerializer,
            ''tags,hostname,region'' @ [newline] @ ''cpu,usage_user'' @ [newline]
              @ ''mem,used,free'' @ [newline] @ [newline])
        \<and> (\<exists>rest. ?out = preamble (MachineTagKeys exampleWorld) ?entries names @ rest)"
    by (intro exI [of _ names] conjI)
  with f m show ?thesis by (intro conjI)
qed

subsection \<open>Validation failures\<close>

lemma validateFormat_iff: "validateFormat fmt = (fmt \<in> set formatChoices)"
proof -
  have "validateFormat_loop choices fmt = (fmt \<in> set choices)" for choices
    by (induction choices) auto
  then show ?thesis by (simp add: validateFormat_def)
qed

lemma getConfig_unknown:
  "useCase opts \<notin> {useCaseDevops, useCaseCPUOnly, useCaseCPUSingle} \<Longrightarrow>
   getConfig opts =
     Inl (Sprintf (''unknown use case: '' @ [apostrophe] @ ''%s'' @ [apostrophe])
            [ArgString (useCase opts)])"
  by (simp add: getConfig_def)

text \<open>
  C7. \<open>main\<close> ends with a fatal message, exit status 1 and nothing written: for
  \<open>totalGroups = 0\<close>; for \<open>groupID \<ge> totalGroups\<close>; for a format outside the format
  choices (also when the groups are fine and the format would be TimescaleDB's); and for
  an unknown use case, where the message names the use case unless creating the profile
  file failed first, which is fatal as well.
\<close>

theorem validation_failure_before_output:
  "(interleavedGenerationGroups opts = 0 \<longrightarrow>
      main w opts = Some (Fatal (Sprintf errTotalGroupsZero []) []))
   \<and> (interleavedGenerationGroups opts \<noteq> 0
        \<and> interleavedGenerationGroupID opts \<ge> interleavedGenerationGroups opts \<longrightarrow>
      main w opts =
        Some (Fatal (Sprintf errInvalidGroupsFmt
                [ArgUint (interleavedGenerationGroupID opts),
                 ArgUint (interleavedGenerationGroups opts)]) []))
   \<and> (interleavedGenerationGroupID opts < interleavedGenerationGroups opts
        \<and> format opts \<notin> set formatChoices \<longrightarrow>
      main w opts =
        Some (Fatal (Sprintf errInvalidFormatFmt
                [ArgString (format opts), ArgStrings formatChoices]) []))
   \<and> (interleavedGenerationGroupID opts < interleavedGenerationGroups opts
        \<and> format opts \<in> set formatChoices
        \<and> useCase opts \<notin> {useCaseDevops, useCaseCPUOnly, useCaseCPUSingle} \<longrightarrow>
      main w opts =
        Some (Fatal
          (case (if length (profileFile opts) > 0 then osCreate w (profileFile opts) else None) of
             Some err \<Rightarrow> Sprintf ''could not create memory profile: '' [ArgError err]
           | None \<Rightarrow> Sprintf (''unknown use case: '' @ [apostrophe] @ ''%s'' @ [apostrophe])
                       [ArgString (useCase opts)])
          []))
   \<and> exitStatus (Fatal m ([] :: string)) = 1 \<and> written (Fatal m ([] :: string)) = []"
proof -
  let ?g = "interleavedGenerationGroupID opts" and ?n = "interleavedGenerationGroups opts"
  have zero: "main w opts = Some (Fatal (Sprintf errTotalGroupsZero []) [])" if "?n = 0"
    using that by (simp add: main_def validateGroups_def)
  have groups: "main w opts = Some (Fatal (Sprintf errInvalidGroupsFmt [ArgUint ?g, ArgUint ?n]) [])"
    if "?n \<noteq> 0 \<and> ?g \<ge> ?n"
    using that by (simp add: main_def validateGroups_def)
  have vg: "validateGroups ?g ?n = (True, None)" if "?g < ?n"
    using that by (auto simp: validateGroups_def)
  have fmt: "main w opts =
        Some (Fatal (Sprintf errInvalidFormatFmt [ArgString (format opts), ArgStrings formatChoices]) [])"
    if "?g < ?n \<and> format opts \<notin> set formatChoices"
    using that vg by (simp add: main_def validateFormat_iff errInvalidFormatFmt_def)
  have uc: "main w opts =
        Some (Fatal
          (case (if length (profileFile opts) > 0 then osCreate w (profileFile opts) else None) of
             Some err \<Rightarrow> Sprintf ''could not create memory profile: '' [ArgError err]
           | None \<Rightarrow> Sprintf (''unknown use case: '' @ [apostrophe] @ ''%s'' @ [apostrophe])
                       [ArgString (useCase opts)])
          [])"
    if "?g < ?n \<and> format opts \<in> set formatChoices
        \<and> useCase opts \<notin> {useCaseDevops, useCaseCPUOnly, useCaseCPUSingle}"
  proof -
    from that have u: "useCase opts \<notin> {useCaseDevops, useCaseCPUOnly, useCaseCPUSingle}" by simp
    from that vg show ?thesis
      by (simp add: main_def validateFormat_iff getConfig_unknown [OF u] split: option.splits)
  qed
  from zero groups fmt uc show ?thesis by simp
qed

theorem validation_failure_before_output_witness:
  "main exampleWorld (exampleOptions\<lparr>interleavedGenerationGroups := 0\<rparr>) =
     Some (Fatal (Sprintf errTotalGroupsZero []) [])
   \<and> main exampleWorld (exampleOptions\<lparr>interleavedGenerationGroupID := 2,
          interleavedGenerationGroups := 2\<rparr>) =
     Some (Fatal (Sprintf errInvalidGroupsFmt [ArgUint 2, ArgUint 2]) [])
   \<and> main exampleWorld (exampleOptions\<lparr>format := ''csv''\<rparr>) =
     Some (Fatal (Sprintf errInvalidFormatFmt [ArgString ''csv'', ArgStrings formatChoices]) [])
   \<and> main exampleWorld (exampleOptions\<lparr>useCase := ''iot''\<rparr>) =
     Some (Fatal (Sprintf (''unknown use case: '' @ [apostrophe] @ ''%s'' @ [apostrophe])
             [ArgString ''iot'']) [])
   \<and> exitStatus (Fatal (Sprintf errTotalGroupsZero []) ([] :: string)) = 1"
proof -
  note v = validation_failure_before_output [where w = exampleWorld]
  have a: "main exampleWorld (exampleOptions\<lparr>interleavedGenerationGroups := 0\<rparr>) =
     Some (Fatal (Sprintf errTotalGroupsZero []) [])"
    using v [of "exampleOptions\<lparr>interleavedGenerationGroups := 0\<rparr>"] by simp
  have b: "main exampleWorld (exampleOptions\<lparr>interleavedGenerationGroupID := 2,
          interleavedGenerationGroups := 2\<rparr>) =
     Some (Fatal (Sprintf errInvalidGroupsFmt [ArgUint 2, ArgUint 2]) [])"
    using v [of "exampleOptions\<lparr>interleavedGenerationGroupID := 2,
          interleavedGenerationGroups := 2\<rparr>"] by simp
  have lt: "interleavedGenerationGroupID exampleOptions < interleavedGenerationGroups exampleOptions"
    by (simp add: exampleOptions_def)
  have c: "main exampleWorld (exampleOptions\<lparr>format := ''csv''\<rparr>) =
     Some (Fatal (Sprintf errInvalidFormatFmt [ArgString ''csv'', ArgStrings formatChoices]) [])"
    using v [of "exampleOptions\<lparr>format := ''csv''\<rparr>"] lt
    by (simp add: formatChoices_def formatCassandra_def formatInflux_def formatMongo_def
        formatTimescaleDB_def)
  have d: "main exampleWorld (exampleOptions\<lparr>useCase := ''iot''\<rparr>) =
     Some (Fatal (Sprintf (''unknown use case: '' @ [apostrophe] @ ''%s'' @ [apostrophe])
             [ArgString ''iot'']) [])"
    using v [of "exampleOptions\<lparr>useCase := ''iot''\<rparr>"] lt
    by (simp add: formatChoices_def formatCassandra_def formatInflux_def formatMongo_def
        formatTimescaleDB_def useCaseDevops_def useCaseCPUOnly_def useCaseCPUSingle_def
        exampleOptions_def)
  have e: "exitStatus (Fatal (Sprintf errTotalGroupsZero []) ([] :: string)) = 1" by simp
  from a b c d e show ?thesis by (intro conjI)
qed


subsection \<open>Determinism\<close>

lemma getSerializer_order:
  assumes "\<forall>entries. mset (order1 entries) = mset entries"
    and "\<forall>entries. mset (order2 entries) = mset entries"
  shows "getSerializer (w\<lparr>timeNowNanosecond := now1, rangeOrder := order1\<rparr>) sim0 fmt out0 =
         getSerializer (w\<lparr>timeNowNanosecond := now2, rangeOrder := order2\<rparr>) sim0 fmt out0"
proof -
  have "mset (map fst (order1 entries)) = mset (map fst (order2 entries))" for entries
    using assms by (metis mset_map)
  then have "sort (map fst (order1 entries)) = sort (map fst (order2 entries))" for entries
    by (metis sorted_list_of_multiset_mset)
  then show ?thesis
    by (simp add: getSerializer_def rangeKeys_eq Let_def)
qed

lemma serializerTo_world:
  "serializerTo (w\<lparr>timeNowNanosecond := now1, rangeOrder := order1\<rparr>) = serializerTo w"
  by (intro ext) (simp add: serializerTo_def)

lemma main_order:
  assumes "\<forall>entries. mset (order1 entries) = mset entries"
    and "\<forall>entries. mset (order2 entries) = mset entries"
  shows "main (w\<lparr>timeNowNanosecond := now1, rangeOrder := order1\<rparr>) opts =
         main (w\<lparr>timeNowNanosecond := now2, rangeOrder := order2\<rparr>) opts"
proof -
  have sel: "osCreate (w\<lparr>timeNowNanosecond := t, rangeOrder := ord\<rparr>) = osCreate w"
    "WriteHeapProfile (w\<lparr>timeNowNanosecond := t, rangeOrder := ord\<rparr>) = WriteHeapProfile w"
    "ToSimulator (w\<lparr>timeNowNanosecond := t, rangeOrder := ord\<rparr>) = ToSimulator w"
    "simulatorMethods (w\<lparr>timeNowNanosecond := t, rangeOrder := ord\<rparr>) = simulatorMethods w"
    for t ord
    by simp_all
  have gs: "getSerializer (w\<lparr>timeNowNanosecond := now1, rangeOrder := order1\<rparr>) sim0 fmt out0 =
         getSerializer (w\<lparr>timeNowNanosecond := now2, rangeOrder := order2\<rparr>) sim0 fmt out0"
    for sim0 fmt out0
    by (rule getSerializer_order [OF assms])
  show ?thesis
    unfolding main_def serializerTo_world sel gs ..
qed

lemma parseTimeFromString_world:
  "parseTimeFromString (w\<lparr>timeNowNanosecond := now1, rangeOrder := order1\<rparr>) s =
   parseTimeFromString w s"
  by (simp add: parseTimeFromString_def)

lemma postFlagParse_seed:
  "pfv_seed flags \<noteq> 0 \<Longrightarrow>
   postFlagParse (w\<lparr>timeNowNanosecond := now1, rangeOrder := order1\<rparr>) flags opts =
   postFlagParse (w\<lparr>timeNowNanosecond := now2, rangeOrder := order2\<rparr>) flags opts"
  unfolding postFlagParse_def parseTimeFromString_world by simp

text \<open>
  C4. Two runs of the process on the same flags and options with a non-zero seed, in
  worlds that differ in what the clock reads and in the order in which \<^verbatim>\<open>range\<close>
  visits the entries of a map, end the same way with the same bytes written (for every
  group configuration, so for one group).
\<close>

theorem runs_byte_identical:
  assumes "pfv_seed flags \<noteq> 0"
    and "\<forall>entries. mset (order1 entries) = mset entries"
    and "\<forall>entries. mset (order2 entries) = mset entries"
  shows "program (w\<lparr>timeNowNanosecond := now1, rangeOrder := order1\<rparr>) flags opts =
         program (w\<lparr>timeNowNanosecond := now2, rangeOrder := order2\<rparr>) flags opts"
proof -
  have p: "postFlagParse (w\<lparr>timeNowNanosecond := now1, rangeOrder := order1\<rparr>) flags opts =
      postFlagParse (w\<lparr>timeNowNanosecond := now2, rangeOrder := order2\<rparr>) flags opts"
    by (rule postFlagParse_seed [OF assms(1)])
  have m: "main (w\<lparr>timeNowNanosecond := now1, rangeOrder := order1\<rparr>) opts' =
      main (w\<lparr>timeNowNanosecond := now2, rangeOrder := order2\<rparr>) opts'" for opts'
    by (rule main_order [OF assms(2,3)])
  show ?thesis unfolding program_def p by (simp add: m split: sum.splits)
qed

theorem runs_byte_identical_witness:
  "pfv_seed exampleFlags \<noteq> 0
   \<and> program (exampleWorld\<lparr>timeNowNanosecond := 1, rangeOrder := (\<lambda>entries. entries)\<rparr>)
        exampleFlags exampleOptions =
       Some (Returned (''tags,hostname,region'' @ [newline] @ ''cpu,usage_user'' @ [newline]
              @ ''mem,used,free'' @ [newline] @ [newline]
              @ ''cpu'' @ [newline] @ ''cpu'' @ [newline] @ ''cpu'' @ [newline] @ ''cpu'' @ [newline]))
   \<and> program (exampleWorld\<lparr>timeNowNanosecond := 2, rangeOrder := rev\<rparr>)
        exampleFlags exampleOptions =
       Some (Returned (''tags,hostname,region'' @ [newline] @ ''cpu,usage_user'' @ [newline]
              @ ''mem,used,free'' @ [newline] @ [newline]
              @ ''cpu'' @ [newline] @ ''cpu'' @ [newline] @ ''cpu'' @ [newline] @ ''cpu'' @ [newline]))"
proof -
  let ?out = "''tags,hostname,region'' @ [newline] @ ''cpu,usage_user'' @ [newline]
              @ ''mem,used,free'' @ [newline] @ [newline]
              @ ''cpu'' @ [newline] @ ''cpu'' @ [newline] @ ''cpu'' @ [newline] @ ''cpu'' @ [newline]"
  have s: "pfv_seed exampleFlags \<noteq> 0" by (simp add: exampleFlags_def)
  have o1: "\<forall>entries :: (string \<times> string list) list. mset ((\<lambda>entries. entries) entries) = mset entries"
    by simp
  have o2: "\<forall>entries :: (string \<times> string list) list. mset (rev entries) = mset entries"
    by simp
  have w: "exampleWorld\<lparr>timeNowNanosecond := 1, rangeOrder := (\<lambda>entries. entries)\<rparr> =
      exampleWorld\<lparr>timeNowNanosecond := 1\<rparr>"
    by (simp add: exampleWorld_def)
  have p: "postFlagParse (exampleWorld\<lparr>timeNowNanosecond := 1\<rparr>) exampleFlags exampleOptions =
      Inr (exampleOptions\<lparr>initScaleVar := 1, seed := 42,
             timestampStart := 1451606400000000000, timestampEnd := 1451606460000000000\<rparr>)"
    by (simp add: postFlagParse_def parseTimeFromString_def exampleWorld_def exampleFlags_def)
  have m: "main (exampleWorld\<lparr>timeNowNanosecond := 1\<rparr>) opts = main exampleWorld opts" for opts
    using main_order [where ?order1.0 = "\<lambda>entries. entries" and ?order2.0 = "\<lambda>entries. entries"
        and w = exampleWorld and ?now1.0 = 1 and opts = opts and ?now2.0 = 123456789]
    by (simp add: exampleWorld_def)
  have first: "program (exampleWorld\<lparr>timeNowNanosecond := 1, rangeOrder := (\<lambda>entries. entries)\<rparr>)
        exampleFlags exampleOptions = Some (Returned ?out)"
    unfolding w program_def p
    by (simp add: m example_main exampleOptions_def formatTimescaleDB_def useCaseCPUSingle_def)
  from runs_byte_identical [OF s o1 o2, where w = exampleWorld and ?now1.0 = 1
      and opts = exampleOptions and ?now2.0 = 2] first
  have second: "program (exampleWorld\<lparr>timeNowNanosecond := 2, rangeOrder := rev\<rparr>)
        exampleFlags exampleOptions = Some (Returned ?out)"
    by simp
  from s first second show ?thesis by (intro conjI)
qed


subsection \<open>The query generator\<close>

text \<open>
  C8. When the common constructor returns a \<^verbatim>\<open>*TimescaleDBDevops\<close>, the generator
  built for \<open>nhosts\<close> embeds that value and holds \<open>nhosts\<close>. \<open>Dispatch\<close> takes a Query
  from the pool, hands that Query to \<open>HighCPUForHosts\<close> with \<open>scaleVar\<close> and the \<open>hosts\<close>
  field, on the state the pool left, and returns that same Query with the state the
  builder left.
\<close>

theorem high_cpu_generator_delegates:
  "(newTimescaleDBDevopsCommon pkg dbConfig start end = TimescaleDBDevopsPtr underlying \<longrightarrow>
      (\<exists>d. NewTimescaleDBDevopsHighCPU pkg nhosts dbConfig start end = Some d
          \<and> TimescaleDBDevops d = underlying \<and> hosts d = nhosts))
   \<and> (NewTimescaleDBQuery pkg h = (q, h1)
        \<and> HighCPUForHosts pkg (TimescaleDBDevops d0) q scaleVar0 (hosts d0) h1 = (underlying', h2) \<longrightarrow>
      Dispatch pkg d0 unused scaleVar0 h = (q, d0\<lparr>TimescaleDBDevops := underlying'\<rparr>, h2)
      \<and> fst (Dispatch pkg d0 unused scaleVar0 h) = fst (NewTimescaleDBQuery pkg h)
      \<and> hosts (fst (snd (Dispatch pkg d0 unused scaleVar0 h))) = hosts d0)"
  by (simp add: NewTimescaleDBDevopsHighCPU_def Dispatch_def)

theorem high_cpu_generator_delegates_witness:
  "NewTimescaleDBDevopsHighCPU examplePackage 8 ''db'' 0 60 =
     Some \<lparr>TimescaleDBDevops = ''db'', hosts = 8\<rparr>
   \<and> Dispatch examplePackage \<lparr>TimescaleDBDevops = ''db'', hosts = 8\<rparr> 0 100 (3, Map.empty) =
       (3, \<lparr>TimescaleDBDevops = ''db'', hosts = 8\<rparr>, (4, [3 \<mapsto> [100, 8]]))"
proof -
  have c: "newTimescaleDBDevopsCommon examplePackage ''db'' 0 60 = TimescaleDBDevopsPtr ''db''"
    by (simp add: examplePackage_def)
  have n: "NewTimescaleDBQuery examplePackage (3, Map.empty) = (3, (4, [3 \<mapsto> []]))"
    by (simp add: examplePackage_def)
  have b: "HighCPUForHosts examplePackage
      (TimescaleDBDevops \<lparr>TimescaleDBDevops = ''db'', hosts = 8\<rparr>) 3 100
      (hosts \<lparr>TimescaleDBDevops = ''db'', hosts = 8 :: go_int\<rparr>) (4, [3 \<mapsto> []]) =
      (''db'', (4, [3 \<mapsto> [100, 8]]))"
    by (simp add: examplePackage_def)
  note t = high_cpu_generator_delegates [of examplePackage "''db''" 0 60 "''db''" 8
      "(3, Map.empty)" 3 "(4, [3 \<mapsto> []])" "\<lparr>TimescaleDBDevops = ''db'', hosts = 8\<rparr>" 100
      "''db''" "(4, [3 \<mapsto> [100, 8]])" 0]
  from t c obtain d where d: "NewTimescaleDBDevopsHighCPU examplePackage 8 ''db'' 0 60 = Some d"
    "TimescaleDBDevops d = ''db''" "hosts d = 8" by blast
  then have d': "d = \<lparr>TimescaleDBDevops = ''db'', hosts = 8\<rparr>" by (cases d) simp
  from t n b have "Dispatch examplePackage \<lparr>TimescaleDBDevops = ''db'', hosts = 8\<rparr> 0 100 (3, Map.empty) =
       (3, \<lparr>TimescaleDBDevops = ''db'', hosts = 8\<rparr>, (4, [3 \<mapsto> [100, 8]]))"
    by simp
  with d(1) d' show ?thesis by simp
qed

text \<open>
  C10. The first argument of \<open>Dispatch\<close> is ignored: two calls that differ only in it
  return the same Query, generator and state.
\<close>

theorem dispatch_ignores_first_argument:
  "Dispatch pkg d a scaleVar0 h = Dispatch pkg d b scaleVar0 h"
  by (simp add: Dispatch_def)

end
